theory Spec2Isabelle
  imports Main "HOL-Library.AList" "HOL-Library.Sublist"
begin

section \<open>Python values, exceptions and strings\<close>

text \<open>
  Row dictionaries of the archive hold SQL values. \<open>PNone\<close> is Python's \<open>None\<close>;
  \<open>PDateTime\<close> is a \<open>datetime\<close> object, identified by its ISO text. A dictionary
  with insertion order is an association list with distinct keys.
\<close>

datatype pyval = PNone | PBool bool | PInt int | PStr string | PDateTime string

type_synonym row = "(string \<times> pyval) list"

text \<open>
  The subclasses of Python's \<open>Exception\<close> that the embedded code raises itself, and
  \<open>Exception\<close> for whatever a collaborator (database driver, file system) raises.
  Every \<open>except Exception\<close> of the source catches all of them.
\<close>

datatype exn = ValueError string | KeyError string | AttributeError string | Exception string

text \<open>
  \<open>str.lower()\<close> on ASCII text: the letters A to Z are moved to a to z and every
  other character is left as it is. Letters outside ASCII, which \<open>str.lower()\<close> also
  folds, are outside the model: the discriminators compared against are ASCII.
\<close>

definition lower_char :: "char \<Rightarrow> char" where
  "lower_char c =
     (case map_of (zip ''ABCDEFGHIJKLMNOPQRSTUVWXYZ'' ''abcdefghijklmnopqrstuvwxyz'') c of
        None \<Rightarrow> c
      | Some d \<Rightarrow> d)"

definition lower :: "string \<Rightarrow> string" where
  "lower s = map lower_char s"

text \<open>\<open>getattr(obj, name, default)\<close>: an absent attribute is \<open>None\<close> in the model.\<close>

definition getattr :: "'a option \<Rightarrow> 'a \<Rightarrow> 'a" where
  "getattr attr dflt = (case attr of None \<Rightarrow> dflt | Some v \<Rightarrow> v)"

text \<open>\<open>row[key]\<close>, raising \<open>KeyError\<close> for a missing key.\<close>

definition getitem :: "row \<Rightarrow> string \<Rightarrow> exn + pyval" where
  "getitem r k = (case map_of r k of None \<Rightarrow> Inl (KeyError k) | Some v \<Rightarrow> Inr v)"


section \<open>Schema namespace (db\_adapters/schema.py, db\_adapters/models.py)\<close>



definition get_schema_name :: "string option \<Rightarrow> string option" where
  "get_schema_name st = st"

text \<open>
  A declarative model class contributes its \<open>__tablename__\<close> and its \<open>__table_args__\<close>:
  the index names and the trailing keyword dictionary (empty when the tuple has none).
\<close>

record table_def =
  tablename :: string
  indexes :: "string list"
  table_kwargs :: "(string \<times> string) list"

text \<open>The expression \<open>{'schema': schema} if schema else {}\<close>; \<open>None\<close> and \<open>""\<close> are falsy.\<close>

definition schema_kwargs :: "string option \<Rightarrow> (string \<times> string) list" where
  "schema_kwargs schema =
     (case schema of None \<Rightarrow> [] | Some s \<Rightarrow> if s = [] then [] else [(''schema'', s)])"

text \<open>
  Each class body evaluates \<open>schema = get_schema_name()\<close> when the module is imported.
  \<open>Chat.__table_args__\<close> is a tuple of two indexes only: it has no keyword dictionary.
\<close>

definition Chat :: "string option \<Rightarrow> table_def" where
  "Chat st =
     (let schema = get_schema_name st in
      \<lparr>tablename = ''chats'',
       indexes = [''idx_chat_type'', ''idx_chat_username''],
       table_kwargs = []\<rparr>)"

definition Message :: "string option \<Rightarrow> table_def" where
  "Message st =
     (let schema = get_schema_name st in
      \<lparr>tablename = ''messages'',
       indexes = [''idx_message_chat_date'', ''idx_message_sender'', ''idx_message_media'',
                  ''uq_message_id_chat''],
       table_kwargs = schema_kwargs schema\<rparr>)"

definition User :: "string option \<Rightarrow> table_def" where
  "User st =
     (let schema = get_schema_name st in
      \<lparr>tablename = ''users'',
       indexes = [''idx_user_username'', ''idx_user_phone''],
       table_kwargs = schema_kwargs schema\<rparr>)"

definition Media :: "string option \<Rightarrow> table_def" where
  "Media st =
     (let schema = get_schema_name st in
      \<lparr>tablename = ''media'',
       indexes = [''idx_media_type'', ''idx_media_downloaded''],
       table_kwargs = schema_kwargs schema\<rparr>)"

definition Reaction :: "string option \<Rightarrow> table_def" where
  "Reaction st =
     (let schema = get_schema_name st in
      \<lparr>tablename = ''reactions'',
       indexes = [''idx_reaction_message'', ''idx_reaction_emoji''],
       table_kwargs = schema_kwargs schema\<rparr>)"

definition SyncStatus :: "string option \<Rightarrow> table_def" where
  "SyncStatus st =
     (let schema = get_schema_name st in
      \<lparr>tablename = ''sync_status'',
       indexes = [''idx_sync_date''],
       table_kwargs = schema_kwargs schema\<rparr>)"

definition Metadata :: "string option \<Rightarrow> table_def" where
  "Metadata st =
     (let schema = get_schema_name st in
      \<lparr>tablename = ''metadata'',
       indexes = [''idx_metadata_key''],
       table_kwargs = schema_kwargs schema\<rparr>)"

text \<open>The namespace a table is created under: the \<open>schema\<close> keyword, else the default.\<close>

definition table_schema :: "table_def \<Rightarrow> string option" where
  "table_schema td = map_of (table_kwargs td) ''schema''"

text \<open>
  The seven classes in the order models.py defines them; \<open>st\<close> is the value of the
  global \<open>schema_name\<close> at the moment the class bodies run.
\<close>

definition models :: "string option \<Rightarrow> table_def list" where
  "models st = [Chat st, Message st, User st, Media st, Reaction st, SyncStatus st, Metadata st]"





section \<open>Adapter factory (db\_adapters/factory.py)\<close>

text \<open>
  The configuration object is read with \<open>getattr\<close> and by attribute access; an absent
  attribute is \<open>None\<close>. \<open>config.Config\<close> itself is not part of the sources.
\<close>

record config =
  db_type :: "string option"
  database_path :: "string option"
  database_timeout :: "pyval option"
  postgres_host :: "string option"
  postgres_port :: "pyval option"
  postgres_db :: "string option"
  postgres_user :: "string option"
  postgres_password :: "string option"
  postgres_pool_size :: "pyval option"

text \<open>
  The five connection settings (the dictionary \<open>pg_config\<close> of the migration script)
  and the keyword arguments of \<open>PostgreSQLAdapter(...)\<close>, which add the pool size.
\<close>

record pg_config =
  host :: string
  port :: pyval
  database :: string
  user :: string
  password :: string

record pg_args = pg_config +
  pool_size :: pyval

definition sqlite_message :: string where
  "sqlite_message =
     ''For db_type='' @ [CHR 0x27] @ ''sqlite'' @ [CHR 0x27] @
     '', use the original src.database.Database class. '' @
     ''Set db_type='' @ [CHR 0x27] @ ''sqlite-alchemy'' @ [CHR 0x27] @
     '' to use the SQLAlchemy SQLite adapter.''"

definition password_message :: string where
  "password_message = ''PostgreSQL password is required when using postgres-alchemy''"

text \<open>
  The constructors of the two adapter classes are parameters: \<open>SQLiteAdapter\<close> takes the
  path and the timeout, \<open>PostgreSQLAdapter\<close> the connection arguments; either may raise.
  The factory's own \<open>logger.info\<close> line has no effect on the result and is left out.
\<close>

definition create_database_adapter ::
  "(string \<Rightarrow> pyval \<Rightarrow> exn + 'a) \<Rightarrow> (pg_args \<Rightarrow> exn + 'a) \<Rightarrow> config \<Rightarrow> exn + 'a" where
  "create_database_adapter SQLiteAdapter PostgreSQLAdapter cfg =
     (let dbt = lower (getattr (db_type cfg) ''sqlite'') in
      if dbt = ''sqlite'' then Inl (ValueError sqlite_message)
      else if dbt = ''sqlite-alchemy'' then
        (case database_path cfg of
           None \<Rightarrow> Inl (AttributeError ''database_path'')
         | Some p \<Rightarrow>
             (case database_timeout cfg of
                None \<Rightarrow> Inl (AttributeError ''database_timeout'')
              | Some t \<Rightarrow> SQLiteAdapter p t))
      else if dbt = ''postgres-alchemy'' then
        (let h = getattr (postgres_host cfg) ''localhost'';
             pt = getattr (postgres_port cfg) (PInt 5432);
             db = getattr (postgres_db cfg) ''telegram_backup'';
             u = getattr (postgres_user cfg) ''postgres'';
             pw = getattr (postgres_password cfg) '''';
             ps = getattr (postgres_pool_size cfg) (PInt 5)
         in if pw = [] then Inl (ValueError password_message)
            else PostgreSQLAdapter
                   \<lparr>host = h, port = pt, database = db, user = u, password = pw,
                    pool_size = ps\<rparr>)
      else Inl (ValueError (''Unsupported database type: '' @ dbt)))"

definition is_sqlalchemy_adapter :: "string \<Rightarrow> bool" where
  "is_sqlalchemy_adapter dbt = (lower dbt \<in> set [''sqlite-alchemy'', ''postgres-alchemy''])"



section \<open>Migration (migrate\_to\_postgres.py)\<close>

subsection \<open>Collaborators\<close>

text \<open>
  A record emitted through the module's \<open>logger\<close>: the level and the message, an
  f-string kept as its fragments (literal text and interpolated values). Symbols outside
  ASCII that decorate some messages are left out of the literals.
\<close>

datatype level = INFO | WARNING | ERROR

datatype frag = Lit string | Str string | Num int | Val pyval | Exc exn

type_synonym log_record = "level \<times> frag list"

text \<open>The operations of the adapter contract (db\_adapters/adapter.py) the script calls.\<close>

datatype pg_call =
    Initialize_schema
  | Upsert_chat row
  | Insert_messages "row list"
  | Upsert_user row
  | Upsert_media row
  | Insert_reactions "row list"
  | Update_sync_status pyval pyval pyval
  | Set_metadata pyval pyval
  | Close

text \<open>
  Everything the script uses and the sources do not contain is a parameter:
  the operating system (\<open>os.getenv\<close>, \<open>os.path.exists\<close>, \<open>shutil.copy2\<close>),
  \<open>datetime.fromisoformat\<close> (the datetime is identified by the text returned),
  the object \<open>Config()\<close>, the legacy store \<open>database.Database\<close> and the target adapter
  with states of type \<open>'s\<close>. A call that raises returns the exception. The legacy store
  is only read while the script runs, so each of its reads is a fixed result; the
  argument of \<open>sqlite_db_get_all_chats\<close> is \<open>include_empty\<close>, \<open>None\<close> when the call
  passes none;
  \<open>sqlite_db_select_all t\<close> stands for the cursor reading every row of table \<open>t\<close> as a
  dictionary from column name to value (\<open>get_connection\<close>, \<open>execute\<close>, \<open>fetchall\<close>,
  \<open>dict(zip(columns, row))\<close>). An adapter call returns the exception raised, if any,
  and the state it leaves.
\<close>

record 's world =
  getenv :: "string \<Rightarrow> string option"
  path_exists :: "string \<Rightarrow> bool"
  copy2 :: "string \<Rightarrow> string \<Rightarrow> exn option"
  fromisoformat :: "string \<Rightarrow> exn + string"
  Config :: config
  SQLiteDatabase :: "string \<Rightarrow> exn option"
  sqlite_db_get_all_chats :: "bool option \<Rightarrow> exn + row list"
  sqlite_db_get_messages :: "pyval \<Rightarrow> nat \<Rightarrow> nat \<Rightarrow> exn + row list"
  sqlite_db_get_message_count :: "pyval \<Rightarrow> exn + int"
  sqlite_db_select_all :: "string \<Rightarrow> exn + row list"
  sqlite_db_get_metadata :: "exn + (pyval \<times> pyval) list"
  sqlite_db_close :: "exn option"
  SQLiteAdapter :: "string \<Rightarrow> pyval \<Rightarrow> exn + 's"
  PostgreSQLAdapter :: "pg_args \<Rightarrow> exn + 's"
  pg_adapter_call :: "pg_call \<Rightarrow> 's \<Rightarrow> exn option \<times> 's"
  pg_adapter_get_stats :: "'s \<Rightarrow> exn + (string \<rightharpoonup> int)"

text \<open>
  What changes while a \<open>DataMigrator\<close> works: the state of the target adapter, the
  history of the calls made on it, and the records logged so far.
\<close>

record 's mstate =
  pg :: 's
  calls :: "pg_call list"
  logs :: "log_record list"

definition logger :: "level \<Rightarrow> frag list \<Rightarrow> 's mstate \<Rightarrow> 's mstate" where
  "logger lv msg st = st\<lparr>logs := logs st @ [(lv, msg)]\<rparr>"

definition pg_adapter :: "'s world \<Rightarrow> pg_call \<Rightarrow> 's mstate \<Rightarrow> exn option \<times> 's mstate" where
  "pg_adapter W c st =
     (case pg_adapter_call W c (pg st) of
        (r, s') \<Rightarrow> (r, st\<lparr>pg := s', calls := calls st @ [c]\<rparr>))"

subsection \<open>Reading the legacy store\<close>

definition convert_dict :: "row \<Rightarrow> row" where
  "convert_dict r = map (\<lambda>(k, v). (k, if v = PStr [] then PNone else v)) r"

definition DataMigrator_get_chats :: "'s world \<Rightarrow> exn + row list" where
  "DataMigrator_get_chats W =
     (case sqlite_db_get_all_chats W (Some True) of
        Inl e \<Rightarrow> Inl e
      | Inr chats \<Rightarrow> Inr (map convert_dict chats))"

text \<open>
  The two \<open>if\<close> blocks on \<open>"date"\<close> and \<open>"edit_date"\<close>: a value that is present, truthy
  and a \<open>str\<close> is replaced by the parsed datetime; \<open>fromisoformat\<close> may raise.
\<close>

definition parse_date :: "'s world \<Rightarrow> string \<Rightarrow> row \<Rightarrow> exn + row" where
  "parse_date W k msg_dict =
     (case map_of msg_dict k of
        Some (PStr s) \<Rightarrow>
          if s \<noteq> [] then
            (case fromisoformat W s of
               Inl e \<Rightarrow> Inl e
             | Inr d \<Rightarrow> Inr (AList.update k (PDateTime d) msg_dict))
          else Inr msg_dict
      | _ \<Rightarrow> Inr msg_dict)"

definition convert_message :: "'s world \<Rightarrow> row \<Rightarrow> exn + row" where
  "convert_message W msg =
     (case parse_date W ''date'' (convert_dict msg) of
        Inl e \<Rightarrow> Inl e
      | Inr msg_dict \<Rightarrow> parse_date W ''edit_date'' msg_dict)"

text \<open>The loop \<open>for msg in messages\<close>, appending to \<open>all_messages\<close>.\<close>

fun convert_messages :: "'s world \<Rightarrow> row list \<Rightarrow> row list \<Rightarrow> exn + row list" where
  "convert_messages W [] all_messages = Inr all_messages"
| "convert_messages W (msg # msgs) all_messages =
     (case convert_message W msg of
        Inl e \<Rightarrow> Inl e
      | Inr msg_dict \<Rightarrow> convert_messages W msgs (all_messages @ [msg_dict]))"

definition batch_size :: nat where
  "batch_size = 1000"

text \<open>
  The loop \<open>while True\<close> of \<open>_get_messages\<close> for one chat. Nothing in the script bounds
  it: a store that keeps returning full pages keeps it running, which is the result
  \<open>None\<close>.
\<close>

partial_function (option) get_messages_while ::
  "'s world \<Rightarrow> pyval \<Rightarrow> nat \<Rightarrow> row list \<Rightarrow> (exn + row list) option" where
  "get_messages_while W chat_id offset all_messages =
     (case sqlite_db_get_messages W chat_id batch_size offset of
        Inl e \<Rightarrow> Some (Inl e)
      | Inr messages \<Rightarrow>
          if messages = [] then Some (Inr all_messages)
          else
            (case convert_messages W messages all_messages of
               Inl e \<Rightarrow> Some (Inl e)
             | Inr all_messages' \<Rightarrow>
                 if length messages < batch_size then Some (Inr all_messages')
                 else get_messages_while W chat_id (offset + batch_size) all_messages'))"

declare get_messages_while.simps [code]

text \<open>The loop \<open>for chat in chats\<close> of \<open>_get_messages\<close>.\<close>

fun get_messages_for :: "'s world \<Rightarrow> row list \<Rightarrow> row list \<Rightarrow> (exn + row list) option" where
  "get_messages_for W [] all_messages = Some (Inr all_messages)"
| "get_messages_for W (chat # chats) all_messages =
     (case getitem chat ''id'' of
        Inl e \<Rightarrow> Some (Inl e)
      | Inr chat_id \<Rightarrow>
          (case get_messages_while W chat_id 0 all_messages of
             None \<Rightarrow> None
           | Some (Inl e) \<Rightarrow> Some (Inl e)
           | Some (Inr all_messages') \<Rightarrow> get_messages_for W chats all_messages'))"

definition DataMigrator_get_messages :: "'s world \<Rightarrow> (exn + row list) option" where
  "DataMigrator_get_messages W =
     (case sqlite_db_get_all_chats W None of
        Inl e \<Rightarrow> Some (Inl e)
      | Inr chats \<Rightarrow> get_messages_for W chats [])"

text \<open>
  \<open>_get_users\<close>, \<open>_get_media\<close>, \<open>_get_reactions\<close> and \<open>_get_sync_status\<close> are the same
  code on four table names.
\<close>

definition DataMigrator_select :: "'s world \<Rightarrow> string \<Rightarrow> exn + row list" where
  "DataMigrator_select W t =
     (case sqlite_db_select_all W t of
        Inl e \<Rightarrow> Inl e
      | Inr rows \<Rightarrow> Inr (map convert_dict rows))"

definition DataMigrator_get_metadata :: "'s world \<Rightarrow> exn + row list" where
  "DataMigrator_get_metadata W =
     (case sqlite_db_get_metadata W of
        Inl e \<Rightarrow> Inl e
      | Inr metadata \<Rightarrow> Inr (map (\<lambda>(k, v). [(''key'', k), (''value'', v)]) metadata))"

subsection \<open>migrate\_table\<close>

text \<open>
  The first \<open>try\<close> block: the \<open>if\<close>/\<open>elif\<close> chain on the table name. \<open>None\<close> is a
  read that does not return, \<open>Inl e\<close> a read that raises, \<open>Inr None\<close> the final
  \<open>else\<close> (an unknown name) and \<open>Inr (Some rows)\<close> the rows read.
\<close>

definition read_table :: "'s world \<Rightarrow> string \<Rightarrow> (exn + row list option) option" where
  "read_table W table_name =
     (if table_name = ''chats'' then Some (map_sum id Some (DataMigrator_get_chats W))
      else if table_name = ''messages'' then
        map_option (map_sum id Some) (DataMigrator_get_messages W)
      else if table_name = ''users'' then Some (map_sum id Some (DataMigrator_select W ''users''))
      else if table_name = ''media'' then Some (map_sum id Some (DataMigrator_select W ''media''))
      else if table_name = ''reactions'' then
        Some (map_sum id Some (DataMigrator_select W ''reactions''))
      else if table_name = ''sync_status'' then
        Some (map_sum id Some (DataMigrator_select W ''sync_status''))
      else if table_name = ''metadata'' then Some (map_sum id Some (DataMigrator_get_metadata W))
      else Some (Inr None))"

text \<open>The \<open>if\<close>/\<open>elif\<close> chain in the body of \<open>for row in sqlite_data\<close>.\<close>

definition write_row :: "'s world \<Rightarrow> string \<Rightarrow> row \<Rightarrow> 's mstate \<Rightarrow> exn option \<times> 's mstate" where
  "write_row W table_name r st =
     (if table_name = ''chats'' then pg_adapter W (Upsert_chat r) st
      else if table_name = ''messages'' then (None, st)
      else if table_name = ''users'' then pg_adapter W (Upsert_user r) st
      else if table_name = ''media'' then pg_adapter W (Upsert_media r) st
      else if table_name = ''reactions'' then pg_adapter W (Insert_reactions [r]) st
      else if table_name = ''sync_status'' then
        (case getitem r ''chat_id'' of
           Inl e \<Rightarrow> (Some e, st)
         | Inr chat_id \<Rightarrow>
             (case getitem r ''last_message_id'' of
                Inl e \<Rightarrow> (Some e, st)
              | Inr last_message_id \<Rightarrow>
                  (case getitem r ''message_count'' of
                     Inl e \<Rightarrow> (Some e, st)
                   | Inr message_count \<Rightarrow>
                       pg_adapter W (Update_sync_status chat_id last_message_id message_count) st)))
      else if table_name = ''metadata'' then
        (case getitem r ''key'' of
           Inl e \<Rightarrow> (Some e, st)
         | Inr k \<Rightarrow>
             (case getitem r ''value'' of
                Inl e \<Rightarrow> (Some e, st)
              | Inr v \<Rightarrow> pg_adapter W (Set_metadata k v) st))
      else (None, st))"

text \<open>
  The loop \<open>for row in sqlite_data\<close> with its counter; \<open>transform_func\<close> is the optional
  argument of \<open>migrate_table\<close> and may raise.
\<close>

fun write_rows ::
  "'s world \<Rightarrow> string \<Rightarrow> (row \<Rightarrow> exn + row) option \<Rightarrow> row list \<Rightarrow> nat \<Rightarrow> 's mstate
     \<Rightarrow> (exn + nat) \<times> 's mstate" where
  "write_rows W table_name transform_func [] count st = (Inr count, st)"
| "write_rows W table_name transform_func (r # rs) count st =
     (case (case transform_func of None \<Rightarrow> Inr r | Some f \<Rightarrow> f r) of
        Inl e \<Rightarrow> (Inl e, st)
      | Inr r' \<Rightarrow>
          (case write_row W table_name r' st of
             (Some e, st') \<Rightarrow> (Inl e, st')
           | (None, st') \<Rightarrow> write_rows W table_name transform_func rs (count + 1) st'))"

text \<open>The second \<open>try\<close> block, with its \<open>except\<close> clause.\<close>

definition write_table ::
  "'s world \<Rightarrow> string \<Rightarrow> (row \<Rightarrow> exn + row) option \<Rightarrow> row list \<Rightarrow> 's mstate \<Rightarrow> nat \<times> 's mstate"
  where
  "write_table W table_name transform_func sqlite_data st =
     (case write_rows W table_name transform_func sqlite_data 0 st of
        (Inl e, st1) \<Rightarrow>
          (0, logger ERROR [Lit ''Error migrating '', Str table_name, Lit '': '', Exc e] st1)
      | (Inr count, st1) \<Rightarrow>
          (case (if table_name = ''messages'' \<and> sqlite_data \<noteq> []
                 then pg_adapter W (Insert_messages sqlite_data) st1 else (None, st1)) of
             (Some e, st2) \<Rightarrow>
               (0, logger ERROR [Lit ''Error migrating '', Str table_name, Lit '': '', Exc e] st2)
           | (None, st2) \<Rightarrow>
               (count,
                logger INFO [Lit ''Migrated '', Num (int count), Lit '' rows from '', Str table_name]
                  st2)))"

definition migrate_table ::
  "'s world \<Rightarrow> string \<Rightarrow> (row \<Rightarrow> exn + row) option \<Rightarrow> 's mstate \<Rightarrow> (nat \<times> 's mstate) option"
  where
  "migrate_table W table_name transform_func st0 =
     (let st = logger INFO [Lit ''Migrating table: '', Str table_name] st0 in
      case read_table W table_name of
        None \<Rightarrow> None
      | Some (Inl e) \<Rightarrow>
          Some (0, logger ERROR
                     [Lit ''Error reading '', Str table_name, Lit '' from SQLite: '', Exc e] st)
      | Some (Inr None) \<Rightarrow> Some (0, logger WARNING [Lit ''Unknown table: '', Str table_name] st)
      | Some (Inr (Some sqlite_data)) \<Rightarrow>
          Some (write_table W table_name transform_func sqlite_data st))"

subsection \<open>verify\_migration\<close>

text \<open>The generator summed for \<open>"messages"\<close>: one \<open>get_message_count\<close> per chat.\<close>

fun sum_message_counts :: "'s world \<Rightarrow> row list \<Rightarrow> exn + int" where
  "sum_message_counts W [] = Inr 0"
| "sum_message_counts W (chat # chats) =
     (case getitem chat ''id'' of
        Inl e \<Rightarrow> Inl e
      | Inr chat_id \<Rightarrow>
          (case sqlite_db_get_message_count W chat_id of
             Inl e \<Rightarrow> Inl e
           | Inr n \<Rightarrow>
               (case sum_message_counts W chats of
                  Inl e \<Rightarrow> Inl e
                | Inr m \<Rightarrow> Inr (n + m))))"

text \<open>The dictionary \<open>sqlite_stats\<close>, its two entries in the order they are written.\<close>

definition sqlite_stats :: "'s world \<Rightarrow> exn + (string \<times> int) list" where
  "sqlite_stats W =
     (case sqlite_db_get_all_chats W None of
        Inl e \<Rightarrow> Inl e
      | Inr chats \<Rightarrow>
          (case sqlite_db_get_all_chats W None of
             Inl e \<Rightarrow> Inl e
           | Inr chats' \<Rightarrow>
               (case sum_message_counts W chats' of
                  Inl e \<Rightarrow> Inl e
                | Inr m \<Rightarrow> Inr [(''chats'', int (length chats)), (''messages'', m)])))"

text \<open>The loop \<open>for key in sqlite_stats\<close>; \<open>pg_stats.get(key, 0)\<close> is \<open>getattr\<close> with 0.\<close>

fun compare_counts ::
  "(string \<times> int) list \<Rightarrow> (string \<rightharpoonup> int) \<Rightarrow> bool \<Rightarrow> 's mstate \<Rightarrow> bool \<times> 's mstate" where
  "compare_counts [] pg_stats success st = (success, st)"
| "compare_counts ((key, n) # rest) pg_stats success st =
     (if n \<noteq> getattr (pg_stats key) 0 then
        compare_counts rest pg_stats False
          (logger ERROR
             [Lit ''Count mismatch for '', Str key, Lit '': SQLite='', Num n,
              Lit '', PostgreSQL='', Num (getattr (pg_stats key) 0)] st)
      else
        compare_counts rest pg_stats success
          (logger INFO [Lit '' '', Str key, Lit '': '', Num n, Lit '' records''] st))"

definition verify_migration :: "'s world \<Rightarrow> 's mstate \<Rightarrow> (exn + bool) \<times> 's mstate" where
  "verify_migration W st0 =
     (let st = logger INFO [Lit ''Verifying migration...''] st0 in
      case sqlite_stats W of
        Inl e \<Rightarrow> (Inl e, st)
      | Inr stats \<Rightarrow>
          (case pg_adapter_get_stats W (pg st) of
             Inl e \<Rightarrow> (Inl e, st)
           | Inr pg_stats \<Rightarrow>
               (case compare_counts stats pg_stats True st of
                  (success, st1) \<Rightarrow>
                    (Inr success,
                     if success then logger INFO [Lit '' Migration verification successful!''] st1
                     else logger ERROR [Lit '' Migration verification failed!''] st1))))"

subsection \<open>The constructor and main\<close>

text \<open>
  \<open>DataMigrator.__init__\<close>: open the legacy store, build a configuration for the
  networked backend from \<open>pg_config\<close>, ask the factory for the adapter and initialise
  its schema. The records logged before are passed in.
\<close>

definition DataMigrator_init ::
  "'s world \<Rightarrow> string \<Rightarrow> pg_config \<Rightarrow> log_record list \<Rightarrow> exn + 's mstate" where
  "DataMigrator_init W sqlite_db_path pgc lg =
     (case SQLiteDatabase W sqlite_db_path of
        Some e \<Rightarrow> Inl e
      | None \<Rightarrow>
          (let cfg = (Config W)
                 \<lparr>db_type := Some ''postgres-alchemy'',
                  postgres_host := Some (host pgc),
                  postgres_port := Some (port pgc),
                  postgres_db := Some (database pgc),
                  postgres_user := Some (user pgc),
                  postgres_password := Some (password pgc)\<rparr>
           in case create_database_adapter (SQLiteAdapter W) (PostgreSQLAdapter W) cfg of
                Inl e \<Rightarrow> Inl e
              | Inr s \<Rightarrow>
                  (case pg_adapter W Initialize_schema \<lparr>pg = s, calls = [], logs = lg\<rparr> of
                     (Some e, st) \<Rightarrow> Inl e
                   | (None, st) \<Rightarrow>
                       Inr (logger INFO
                              [Lit ''Initialized migrator: '', Str sqlite_db_path,
                               Lit '' -> PostgreSQL''] st))))"

definition tables :: "string list" where
  "tables =
     [''users'', ''chats'', ''messages'', ''media'', ''reactions'', ''sync_status'', ''metadata'']"

text \<open>The loop \<open>for table in tables\<close> with \<open>total_migrated\<close>.\<close>

fun migrate_tables ::
  "'s world \<Rightarrow> string list \<Rightarrow> nat \<Rightarrow> 's mstate \<Rightarrow> (nat \<times> 's mstate) option" where
  "migrate_tables W [] total_migrated st = Some (total_migrated, st)"
| "migrate_tables W (t # ts) total_migrated st =
     (case migrate_table W t None st of
        None \<Rightarrow> None
      | Some (count, st') \<Rightarrow> migrate_tables W ts (total_migrated + count) st')"

text \<open>
  The \<open>finally\<close> clause once \<open>migrator\<close> is bound: close the adapter, then the legacy
  store; an exception raised here replaces the value being returned.
\<close>

definition close_connections ::
  "'s world \<Rightarrow> int \<Rightarrow> 's mstate \<Rightarrow> (exn + int) \<times> log_record list \<times> ('s \<times> pg_call list) option"
  where
  "close_connections W r st =
     (case pg_adapter W Close st of
        (Some e, st') \<Rightarrow> (Inl e, logs st', Some (pg st', calls st'))
      | (None, st') \<Rightarrow>
          (case sqlite_db_close W of
             Some e \<Rightarrow> (Inl e, logs st', Some (pg st', calls st'))
           | None \<Rightarrow> (Inr r, logs st', Some (pg st', calls st'))))"

text \<open>The seven records logged before \<open>return 0\<close>.\<close>

definition log_success :: "nat \<Rightarrow> string \<Rightarrow> 's mstate \<Rightarrow> 's mstate" where
  "log_success total_migrated backup_path st =
     logger INFO [Lit ''3. Restart the services'']
    (logger INFO [Lit ''2. Make sure POSTGRES_* variables are set correctly'']
    (logger INFO [Lit ''1. Set DB_TYPE=postgres-alchemy in your .env file'']
    (logger INFO [Lit [CHR 0x0A], Lit ''To use the new database:'']
    (logger INFO [Lit ''Backup available at: '', Str backup_path]
    (logger INFO [Lit ''Total records migrated: '', Num (int total_migrated)]
    (logger INFO [Lit [CHR 0x0A], Lit '' Migration completed successfully!''] st))))))"

text \<open>
  The \<open>try\<close> block of \<open>main\<close> from the table loop on, with its \<open>except\<close> and
  \<open>finally\<close> clauses, for a migrator that was constructed.
\<close>

definition run_migration ::
  "'s world \<Rightarrow> string \<Rightarrow> 's mstate
     \<Rightarrow> ((exn + int) \<times> log_record list \<times> ('s \<times> pg_call list) option) option" where
  "run_migration W backup_path st =
     (case migrate_tables W tables 0 st of
        None \<Rightarrow> None
      | Some (total_migrated, st1) \<Rightarrow>
          (case verify_migration W st1 of
             (Inl e, st2) \<Rightarrow>
               Some (close_connections W 1 (logger ERROR [Lit ''Migration failed: '', Exc e] st2))
           | (Inr success, st2) \<Rightarrow>
               if success then
                 Some (close_connections W 0 (log_success total_migrated backup_path st2))
               else
                 Some (close_connections W 1
                         (logger ERROR [Lit [CHR 0x0A], Lit '' Migration verification failed!'']
                            st2))))"

text \<open>The dictionary \<open>pg_config\<close> that \<open>main\<close> builds from the configuration.\<close>

definition main_pg_config :: "config \<Rightarrow> pg_config" where
  "main_pg_config cfg =
     \<lparr>host = getattr (postgres_host cfg) ''localhost'',
      port = getattr (postgres_port cfg) (PInt 5432),
      database = getattr (postgres_db cfg) ''telegram_backup'',
      user = getattr (postgres_user cfg) ''postgres'',
      password = getattr (postgres_password cfg) []\<rparr>"

text \<open>
  The records \<open>main\<close> has logged when it copies the legacy store, and when it
  constructs the migrator.
\<close>

definition main_log :: "string \<Rightarrow> pg_config \<Rightarrow> log_record list" where
  "main_log path pgc =
     [(INFO, [Lit ''Starting SQLite to PostgreSQL migration...'']),
      (INFO, [Lit ''Migrating from SQLite: '', Str path]),
      (INFO, [Lit ''Migrating to PostgreSQL: '', Str (host pgc), Lit '':'', Val (port pgc),
              Lit ''/'', Str (database pgc)])]"

definition backup_log :: "string \<Rightarrow> pg_config \<Rightarrow> log_record list" where
  "backup_log path pgc =
     main_log path pgc @ [(INFO, [Lit ''Created backup: '', Str (path @ ''.backup'')])]"

text \<open>
  \<open>main\<close> returns the exit status, or raises; the model also gives the records logged
  and, when a migrator was constructed, the final state of the target adapter with the
  history of calls made on it. \<open>None\<close> is a run that does not return. Reading
  \<open>config.database_path\<close> raises when the attribute is absent, and \<open>shutil.copy2\<close> is
  called outside the \<open>try\<close> block.
\<close>

definition main ::
  "'s world \<Rightarrow> ((exn + int) \<times> log_record list \<times> ('s \<times> pg_call list) option) option" where
  "main W =
     (let lg0 = [(INFO, [Lit ''Starting SQLite to PostgreSQL migration...''])];
          cfg = Config W
      in if getattr (getenv W ''POSTGRES_PASSWORD'') [] = [] then
           Some (Inr 1, lg0 @ [(ERROR, [Lit ''POSTGRES_PASSWORD not set in environment''])], None)
         else
           (let pgc = main_pg_config cfg
            in case database_path cfg of
                 None \<Rightarrow> Some (Inl (AttributeError ''database_path''), lg0, None)
               | Some path \<Rightarrow>
                   if \<not> path_exists W path then
                     Some (Inr 1,
                           lg0 @ [(ERROR, [Lit ''SQLite database not found: '', Str path])], None)
                   else
                     (let backup_path = path @ ''.backup''
                      in case copy2 W path backup_path of
                           Some e \<Rightarrow> Some (Inl e, main_log path pgc, None)
                         | None \<Rightarrow>
                             (case DataMigrator_init W path pgc (backup_log path pgc) of
                                Inl e \<Rightarrow>
                                  Some (Inr 1,
                                        backup_log path pgc @
                                          [(ERROR, [Lit ''Migration failed: '', Exc e])],
                                        None)
                              | Inr st \<Rightarrow> run_migration W backup_path st))))"


section \<open>Reading the log\<close>

text \<open>
  The tables for which \<open>migrate_table\<close> was entered, in order: the names in the records
  \<open>Migrating table: ...\<close>, which \<open>migrate_table\<close> logs first.
\<close>

fun migrating_table :: "log_record \<Rightarrow> string option" where
  "migrating_table (INFO, [Lit l, Str t]) = (if l = ''Migrating table: '' then Some t else None)"
| "migrating_table r = None"

definition tables_invoked :: "log_record list \<Rightarrow> string list" where
  "tables_invoked lg = List.map_filter migrating_table lg"


section \<open>Deleting a chat\<close>

text \<open>
  Modelled from the spec: the adapter classes that implement \<open>delete_chat\<close>
  (db\_adapters/sqlite\_adapter.py and db\_adapters/postgres\_adapter.py) and the store
  they work on are not among the sources. The store holds the rows of the five tables
  the spec's sentence on chat deletion speaks of, with the column names of models.py: a
  chat and a user are identified by \<open>id\<close>, a message, a media file and a sync status
  name their chat in \<open>chat_id\<close>.
\<close>

record store =
  chat_rows :: "row list"
  message_rows :: "row list"
  media_rows :: "row list"
  sync_status_rows :: "row list"
  user_rows :: "row list"

definition has_id :: "int \<Rightarrow> row \<Rightarrow> bool" where
  "has_id i r = (map_of r ''id'' = Some (PInt i))"

definition of_chat :: "int \<Rightarrow> row \<Rightarrow> bool" where
  "of_chat i r = (map_of r ''chat_id'' = Some (PInt i))"

text \<open>
  Modelled from the spec: adapter.py only declares \<open>delete_chat\<close> ("Delete a chat and
  all related data", "True if deleted, False if not found"). Following the spec, chat
  deletion cascades to the chat's Messages, Media and SyncStatus, not to Users.
\<close>

definition delete_chat :: "int \<Rightarrow> store \<Rightarrow> bool \<times> store" where
  "delete_chat chat_id db =
     (if list_ex (has_id chat_id) (chat_rows db) then
        (True,
         db\<lparr>chat_rows := filter (\<lambda>r. \<not> has_id chat_id r) (chat_rows db),
            message_rows := filter (\<lambda>r. \<not> of_chat chat_id r) (message_rows db),
            media_rows := filter (\<lambda>r. \<not> of_chat chat_id r) (media_rows db),
            sync_status_rows := filter (\<lambda>r. \<not> of_chat chat_id r) (sync_status_rows db)\<rparr>)
      else (False, db))"


section \<open>A recording adapter and the test scenario\<close>

text \<open>
  An adapter that accepts every call and keeps the calls it received; its statistics
  count the distinct chats upserted and the distinct messages inserted.
\<close>

definition recording_call :: "pg_call \<Rightarrow> pg_call list \<Rightarrow> exn option \<times> pg_call list" where
  "recording_call c s = (None, s @ [c])"

fun chats_of_call :: "pg_call \<Rightarrow> pyval option list" where
  "chats_of_call (Upsert_chat r) = [map_of r ''id'']"
| "chats_of_call c = []"

fun messages_of_call :: "pg_call \<Rightarrow> (pyval option \<times> pyval option) list" where
  "messages_of_call (Insert_messages rs) = map (\<lambda>r. (map_of r ''id'', map_of r ''chat_id'')) rs"
| "messages_of_call c = []"

definition recording_get_stats :: "pg_call list \<Rightarrow> exn + (string \<rightharpoonup> int)" where
  "recording_get_stats s =
     Inr [''chats'' \<mapsto> int (length (remdups (concat (map chats_of_call s)))),
          ''messages'' \<mapsto> int (length (remdups (concat (map messages_of_call s))))]"

text \<open>
  The scenario of tests/test\_migration.py: a legacy store with the tables chats,
  messages and metadata only (one chat, one message, one metadata key), so that reading
  users, media, reactions or sync\_status raises.
\<close>

definition test_chat :: row where
  "test_chat =
     [(''id'', PInt 123), (''type'', PStr ''private''), (''title'', PStr ''Test Chat''),
      (''username'', PNone), (''first_name'', PStr ''Test User''), (''last_name'', PNone)]"

definition test_message :: row where
  "test_message =
     [(''id'', PInt 1), (''chat_id'', PInt 123), (''text'', PStr ''Hello from SQLite''),
      (''date'', PStr ''2024-01-01 00:00:00''), (''created_at'', PStr ''2024-01-01 00:00:00'')]"

definition test_config :: config where
  "test_config =
     \<lparr>db_type = Some ''sqlite'',
      database_path = Some ''/data/telegram_backup.db'',
      database_timeout = Some (PInt 30),
      postgres_host = Some ''localhost'',
      postgres_port = Some (PInt 5432),
      postgres_db = Some ''telegram_backup'',
      postgres_user = Some ''telegram'',
      postgres_password = Some ''secure_password_123'',
      postgres_pool_size = None\<rparr>"

definition test_world :: "pg_call list world" where
  "test_world =
     \<lparr>getenv = (\<lambda>k. if k = ''POSTGRES_PASSWORD'' then Some ''secure_password_123'' else None),
      path_exists = (\<lambda>p. True),
      copy2 = (\<lambda>src dst. None),
      fromisoformat = (\<lambda>s. Inr s),
      Config = test_config,
      SQLiteDatabase = (\<lambda>p. None),
      sqlite_db_get_all_chats = (\<lambda>include_empty. Inr [test_chat]),
      sqlite_db_get_messages =
        (\<lambda>chat_id limit offset.
           Inr (if chat_id = PInt 123 then take limit (drop offset [test_message]) else [])),
      sqlite_db_get_message_count = (\<lambda>chat_id. Inr (if chat_id = PInt 123 then 1 else 0)),
      sqlite_db_select_all = (\<lambda>t. Inl (Exception (''no such table: '' @ t))),
      sqlite_db_get_metadata = Inr [(PStr ''owner_id'', PStr ''456'')],
      sqlite_db_close = None,
      SQLiteAdapter = (\<lambda>p t. Inr []),
      PostgreSQLAdapter = (\<lambda>args. Inr []),
      pg_adapter_call = recording_call,
      pg_adapter_get_stats = recording_get_stats\<rparr>"

text \<open>
  The cursor of a legacy store that also has the tables users, media, reactions and
  sync\_status, one row each.
\<close>

definition full_select_all :: "string \<Rightarrow> exn + row list" where
  "full_select_all t =
     (if t = ''users'' then Inr [[(''id'', PInt 456), (''username'', PStr ''alice'')]]
      else if t = ''media'' then
        Inr [[(''id'', PStr ''m1''), (''chat_id'', PInt 123), (''type'', PStr ''photo'')]]
      else if t = ''reactions'' then
        Inr [[(''message_id'', PInt 1), (''chat_id'', PInt 123), (''emoji'', PStr ''+'')]]
      else if t = ''sync_status'' then
        Inr [[(''chat_id'', PInt 123), (''last_message_id'', PInt 1),
              (''message_count'', PInt 1)]]
      else Inl (Exception (''no such table: '' @ t)))"

section \<open>What a call hands to the adapter\<close>

text \<open>The values a call carries: those of its rows and its positional arguments.\<close>

fun call_values :: "pg_call \<Rightarrow> pyval list" where
  "call_values Initialize_schema = []"
| "call_values (Upsert_chat r) = map snd r"
| "call_values (Insert_messages rs) = concat (map (map snd) rs)"
| "call_values (Upsert_user r) = map snd r"
| "call_values (Upsert_media r) = map snd r"
| "call_values (Insert_reactions rs) = concat (map (map snd) rs)"
| "call_values (Update_sync_status chat_id last_message_id message_count) =
     [chat_id, last_message_id, message_count]"
| "call_values (Set_metadata k v) = [k, v]"
| "call_values Close = []"

definition no_empty_string :: "pyval list \<Rightarrow> bool" where
  "no_empty_string vs = (PStr [] \<notin> set vs)"


text \<open>Two adapters that fail: one raises on every call, one on \<open>insert_messages\<close> only.\<close>

definition failing_call :: "pg_call \<Rightarrow> pg_call list \<Rightarrow> exn option \<times> pg_call list" where
  "failing_call c s = (Some (Exception ''connection lost''), s)"

fun rejecting_call :: "pg_call \<Rightarrow> pg_call list \<Rightarrow> exn option \<times> pg_call list" where
  "rejecting_call (Insert_messages rs) s = (Some (Exception ''duplicate key''), s)"
| "rejecting_call c s = (None, s @ [c])"


section \<open>The attempts of a table on the adapter\<close>

text \<open>
  For comparison with \<open>migrate_table\<close>: what its second \<open>try\<close> block attempts on the
  adapter for the rows of a table, in order. An attempt is a call, or the exception
  raised while the arguments of the call are evaluated (a row of sync\_status without
  one of its three keys).
\<close>

definition sync_status_attempt :: "row \<Rightarrow> exn + pg_call" where
  "sync_status_attempt r =
     (case getitem r ''chat_id'' of
        Inl e \<Rightarrow> Inl e
      | Inr chat_id \<Rightarrow>
          (case getitem r ''last_message_id'' of
             Inl e \<Rightarrow> Inl e
           | Inr last_message_id \<Rightarrow>
               (case getitem r ''message_count'' of
                  Inl e \<Rightarrow> Inl e
                | Inr message_count \<Rightarrow>
                    Inr (Update_sync_status chat_id last_message_id message_count))))"

text \<open>
  Attempts are made in order until one raises: the result is the exception, if any, the
  state the adapter is left in and the calls it received.
\<close>

fun run_calls :: "'s world \<Rightarrow> (exn + pg_call) list \<Rightarrow> 's \<Rightarrow> exn option \<times> 's \<times> pg_call list" where
  "run_calls W [] s = (None, s, [])"
| "run_calls W (Inl e # attempts) s = (Some e, s, [])"
| "run_calls W (Inr c # attempts) s =
     (case pg_adapter_call W c s of
        (Some e, s') \<Rightarrow> (Some e, s', [c])
      | (None, s') \<Rightarrow>
          (case run_calls W attempts s' of (r, s'', made) \<Rightarrow> (r, s'', c # made)))"

text \<open>
  The read of a table from the legacy store (\<open>None\<close> when it does not return, \<open>Inl\<close>
  when it raises), with the number of rows read and the attempts for them. Rows other
  than those of metadata pass through \<open>_convert_dict\<close>; the rows of messages are handed
  over in one batch call, made only when there are rows.
\<close>

definition table_attempts ::
  "'s world \<Rightarrow> string \<Rightarrow> (exn + nat \<times> (exn + pg_call) list) option" where
  "table_attempts W t =
     (if t = ''users'' then
        Some (map_sum id (\<lambda>rows. (length rows, map (\<lambda>r. Inr (Upsert_user (convert_dict r))) rows))
                (sqlite_db_select_all W ''users''))
      else if t = ''chats'' then
        Some (map_sum id (\<lambda>rows. (length rows, map (\<lambda>r. Inr (Upsert_chat (convert_dict r))) rows))
                (sqlite_db_get_all_chats W (Some True)))
      else if t = ''messages'' then
        map_option
          (map_sum id (\<lambda>msgs. (length msgs, if msgs = [] then [] else [Inr (Insert_messages msgs)])))
          (DataMigrator_get_messages W)
      else if t = ''media'' then
        Some (map_sum id (\<lambda>rows. (length rows, map (\<lambda>r. Inr (Upsert_media (convert_dict r))) rows))
                (sqlite_db_select_all W ''media''))
      else if t = ''reactions'' then
        Some (map_sum id
                (\<lambda>rows. (length rows, map (\<lambda>r. Inr (Insert_reactions [convert_dict r])) rows))
                (sqlite_db_select_all W ''reactions''))
      else if t = ''sync_status'' then
        Some (map_sum id
                (\<lambda>rows. (length rows, map (\<lambda>r. sync_status_attempt (convert_dict r)) rows))
                (sqlite_db_select_all W ''sync_status''))
      else if t = ''metadata'' then
        Some (map_sum id
                (\<lambda>metadata. (length metadata, map (\<lambda>(k, v). Inr (Set_metadata k v)) metadata))
                (sqlite_db_get_metadata W))
      else Some (Inr (0, [])))"


section \<open>Theorems: schema namespace and factory\<close>

lemma lower_literals:
  "lower ''sqlite'' = ''sqlite''"
  "lower ''SQLite'' = ''sqlite''"
  "lower ''MySQL'' = ''mysql''"
  "lower ''postgres-alchemy'' = ''postgres-alchemy''"
  "lower ''Sqlite-Alchemy'' = ''sqlite-alchemy''"
  by (simp_all add: lower_def lower_char_def)

lemma models_defs:
  "table_schema (Chat st) = None"
  "map table_schema (tl (models st)) = replicate 6 (map_of (schema_kwargs st) ''schema'')"
  by (simp_all add: table_schema_def Chat_def Message_def User_def Media_def Reaction_def
      SyncStatus_def Metadata_def models_def get_schema_name_def numeral_eq_Suc)

text \<open>
  Had the class bodies run with the global set to \<open>archive\<close>, which the import order
  of the package excludes, the table of \<open>Chat\<close> alone would stay in the default
  namespace: \<open>Chat\<close> reads the configured name like its six siblings but does not pass
  it on in \<open>__table_args__\<close>.
\<close>

lemma chat_table_args_without_schema:
  "table_schema (Chat (Some ''archive'')) = None \<and>
   map table_schema (tl (models (Some ''archive''))) = replicate 6 (Some ''archive'')"
  by (simp add: models_defs schema_kwargs_def)



lemma sublist_sqlite: "sublist ''sqlite'' sqlite_message"
proof -
  have "sqlite_message = (''For db_type='' @ [CHR 0x27]) @ ''sqlite'' @
     ([CHR 0x27] @ '', use the original src.database.Database class. '' @
      ''Set db_type='' @ [CHR 0x27] @ ''sqlite-alchemy'' @ [CHR 0x27] @
      '' to use the SQLAlchemy SQLite adapter.'')"
    by (simp add: sqlite_message_def)
  then show ?thesis
    unfolding sublist_def by blast
qed

lemma sublist_msg: "sublist x (p @ x)"
  using sublist_appendI [of x p "[]"] by simp

text \<open>
  Claim C5: for every configuration object and whatever the adapter constructors would
  do, a discriminator (lowercased, as the factory compares it; \<open>sqlite\<close> when the
  attribute is absent) that selects neither adapter class makes the factory raise a
  \<open>ValueError\<close> whose message contains that discriminator; and with the networked
  backend selected and the password absent or empty the factory raises a \<open>ValueError\<close>.
  The result does not depend on the constructors \<open>S\<close> and \<open>P\<close>: neither is called.
\<close>

theorem factory_rejects:
  "(let dbt = lower (getattr (db_type cfg) ''sqlite'');
        msg = (if dbt = ''sqlite'' then sqlite_message else ''Unsupported database type: '' @ dbt)
    in dbt \<notin> {''sqlite-alchemy'', ''postgres-alchemy''} \<longrightarrow>
         create_database_adapter S P cfg = Inl (ValueError msg) \<and> sublist dbt msg) \<and>
   (lower (getattr (db_type cfg) ''sqlite'') = ''postgres-alchemy'' \<and>
      getattr (postgres_password cfg) [] = [] \<longrightarrow>
         create_database_adapter S P cfg = Inl (ValueError password_message))"
  using sublist_sqlite
    sublist_msg [of "lower (getattr (db_type cfg) ''sqlite'')" "''Unsupported database type: ''"]
  by (auto simp: create_database_adapter_def Let_def)

theorem factory_rejects_witness:
  "create_database_adapter (SQLiteAdapter test_world) (PostgreSQLAdapter test_world)
       (test_config\<lparr>db_type := Some ''MySQL''\<rparr>)
     = Inl (ValueError ''Unsupported database type: mysql'') \<and>
   sublist ''mysql'' ''Unsupported database type: mysql'' \<and>
   create_database_adapter (SQLiteAdapter test_world) (PostgreSQLAdapter test_world)
       (test_config\<lparr>db_type := Some ''postgres-alchemy'', postgres_password := Some []\<rparr>)
     = Inl (ValueError password_message)"
  using
    factory_rejects [of "test_config\<lparr>db_type := Some ''MySQL''\<rparr>"
      "SQLiteAdapter test_world" "PostgreSQLAdapter test_world"]
    factory_rejects [of
      "test_config\<lparr>db_type := Some ''postgres-alchemy'', postgres_password := Some []\<rparr>"
      "SQLiteAdapter test_world" "PostgreSQLAdapter test_world"]
  by (simp add: lower_literals test_config_def getattr_def Let_def)

text \<open>
  Claim C10: the factory compares the lowercased discriminator, so two spellings with the
  same lowercase form give the same result; every spelling of \<open>sqlite\<close> raises the
  \<open>ValueError\<close> that points to the original \<open>src.database.Database\<close> class; and an
  adapter is returned only for \<open>sqlite-alchemy\<close> or \<open>postgres-alchemy\<close>.
\<close>

theorem sqlite_discriminator:
  "(lower x = lower y \<longrightarrow>
      create_database_adapter S P (cfg\<lparr>db_type := Some x\<rparr>)
        = create_database_adapter S P (cfg\<lparr>db_type := Some y\<rparr>)) \<and>
   (lower x = ''sqlite'' \<longrightarrow>
      create_database_adapter S P (cfg\<lparr>db_type := Some x\<rparr>) = Inl (ValueError sqlite_message)) \<and>
   (create_database_adapter S P cfg = Inr a \<longrightarrow>
      lower (getattr (db_type cfg) ''sqlite'') \<in> {''sqlite-alchemy'', ''postgres-alchemy''})"
  by (auto simp: create_database_adapter_def Let_def getattr_def
      split: if_splits option.splits)

theorem sqlite_discriminator_witness:
  "lower ''SQLite'' = lower ''sqlite'' \<and> lower ''SQLite'' = ''sqlite'' \<and>
   create_database_adapter (SQLiteAdapter test_world) (PostgreSQLAdapter test_world)
       (test_config\<lparr>db_type := Some ''SQLite''\<rparr>)
     = Inl (ValueError sqlite_message) \<and>
   create_database_adapter (SQLiteAdapter test_world) (PostgreSQLAdapter test_world)
       (test_config\<lparr>db_type := Some ''Sqlite-Alchemy''\<rparr>)
     = Inr [] \<and>
   lower (getattr (db_type (test_config\<lparr>db_type := Some ''Sqlite-Alchemy''\<rparr>)) ''sqlite'')
     \<in> {''sqlite-alchemy'', ''postgres-alchemy''}"
  using
    sqlite_discriminator [of "''SQLite''" "''sqlite''"
      "SQLiteAdapter test_world" "PostgreSQLAdapter test_world" test_config
      "[]"]
    sqlite_discriminator [of "''SQLite''" "''sqlite''"
      "SQLiteAdapter test_world" "PostgreSQLAdapter test_world"
      "test_config\<lparr>db_type := Some ''Sqlite-Alchemy''\<rparr>" "[]"]
  by (simp add: lower_literals test_config_def test_world_def getattr_def
      create_database_adapter_def)

section \<open>Theorems: normalisation of rows\<close>

lemma convert_dict_keys: "map fst (convert_dict r) = map fst r"
  by (induction r) (auto simp: convert_dict_def)

lemma convert_dict_values:
  "map snd (convert_dict r) = map (\<lambda>v. if v = PStr [] then PNone else v) (map snd r)"
  by (induction r) (auto simp: convert_dict_def)

lemma convert_dict_clean: "no_empty_string (map snd (convert_dict r))"
  by (auto simp: no_empty_string_def convert_dict_values)

lemma update_values: "set (map snd (AList.update k v al)) \<subseteq> insert v (set (map snd al))"
  by (induction al) auto

lemma update_clean:
  "no_empty_string (map snd d) \<Longrightarrow> v \<noteq> PStr [] \<Longrightarrow> no_empty_string (map snd (AList.update k v d))"
  using update_values [of k v d] unfolding no_empty_string_def by blast

lemma parse_date_clean:
  assumes "parse_date W k d = Inr d'" and "no_empty_string (map snd d)"
  shows "no_empty_string (map snd d')"
proof (cases "map_of d k")
  case None
  with assms show ?thesis by (simp add: parse_date_def)
next
  case (Some v)
  show ?thesis
  proof (cases v)
    case (PStr s)
    show ?thesis
    proof (cases "s = []")
      case True
      with assms Some PStr show ?thesis by (simp add: parse_date_def)
    next
      case False
      with assms(1) Some PStr obtain dt where "d' = AList.update k (PDateTime dt) d"
        by (auto simp: parse_date_def split: sum.splits)
      with assms(2) show ?thesis by (simp add: update_clean)
    qed
  qed (use assms Some in \<open>simp_all add: parse_date_def\<close>)
qed

lemma convert_message_clean:
  assumes "convert_message W msg = Inr d"
  shows "no_empty_string (map snd d)"
proof -
  from assms obtain d0 where a: "parse_date W ''date'' (convert_dict msg) = Inr d0"
    and b: "parse_date W ''edit_date'' d0 = Inr d"
    by (auto simp: convert_message_def split: sum.splits)
  from parse_date_clean [OF a convert_dict_clean] have "no_empty_string (map snd d0)" .
  from parse_date_clean [OF b this] show ?thesis .
qed


lemma convert_messages_clean:
  "convert_messages W msgs acc = Inr res \<Longrightarrow> \<forall>r\<in>set acc. no_empty_string (map snd r)
     \<Longrightarrow> \<forall>r\<in>set res. no_empty_string (map snd r)"
proof (induction msgs arbitrary: acc)
  case Nil
  then show ?case by simp
next
  case (Cons m ms)
  from Cons.prems(1) obtain d where d: "convert_message W m = Inr d"
    and rest: "convert_messages W ms (acc @ [d]) = Inr res"
    by (auto split: sum.splits)
  from convert_message_clean [OF d] Cons.prems(2)
  have "\<forall>r\<in>set (acc @ [d]). no_empty_string (map snd r)" by simp
  from Cons.IH [OF rest this] show ?case .
qed

lemma get_messages_while_clean:
  assumes "get_messages_while W c off acc = Some (Inr res)"
    and "\<forall>r\<in>set acc. no_empty_string (map snd r)"
  shows "\<forall>r\<in>set res. no_empty_string (map snd r)"
proof -
  define P where "P = (\<lambda>(W::'a world) (c::pyval) (off::nat) (acc::row list) (y::exn + row list).
      \<forall>res. y = Inr res \<longrightarrow> (\<forall>r\<in>set acc. no_empty_string (map snd r))
        \<longrightarrow> (\<forall>r\<in>set res. no_empty_string (map snd r)))"
  have "P W c off acc (Inr res)"
  proof (rule get_messages_while.raw_induct [where P = P, OF _ assms(1)])
    fix loop :: "'a world \<Rightarrow> pyval \<Rightarrow> nat \<Rightarrow> row list \<Rightarrow> (exn + row list) option"
    fix W c off acc y
    assume IH: "\<And>W c off acc y. loop W c off acc = Some y \<Longrightarrow> P W c off acc y"
      and body: "(case sqlite_db_get_messages W c batch_size off of
          Inl e \<Rightarrow> Some (Inl e)
        | Inr messages \<Rightarrow>
            if messages = [] then Some (Inr acc)
            else (case convert_messages W messages acc of
                    Inl e \<Rightarrow> Some (Inl e)
                  | Inr all_messages' \<Rightarrow>
                      if length messages < batch_size then Some (Inr all_messages')
                      else loop W c (off + batch_size) all_messages')) = Some y"
    show "P W c off acc y"
      unfolding P_def
    proof (intro allI impI)
      fix res
      assume y: "y = Inr res" and acc: "\<forall>r\<in>set acc. no_empty_string (map snd r)"
      show "\<forall>r\<in>set res. no_empty_string (map snd r)"
      proof (cases "sqlite_db_get_messages W c batch_size off")
        case (Inl e)
        with body y show ?thesis by simp
      next
        case (Inr messages)
        show ?thesis
        proof (cases "messages = []")
          case True
          with body y Inr acc show ?thesis by simp
        next
          case False
          note ne = this
          show ?thesis
          proof (cases "convert_messages W messages acc")
            case (Inl e)
            with body y Inr ne show ?thesis by simp
          next
            case conv: (Inr acc')
            have acc': "\<forall>r\<in>set acc'. no_empty_string (map snd r)"
              using convert_messages_clean [OF conv acc] .
            show ?thesis
            proof (cases "length messages < batch_size")
              case True
              with body y Inr ne conv acc' show ?thesis by simp
            next
              case False
              with body Inr ne conv have "loop W c (off + batch_size) acc' = Some y" by simp
              from IH [OF this] y acc' show ?thesis unfolding P_def by blast
            qed
          qed
        qed
      qed
    qed
  qed
  with assms(2) show ?thesis unfolding P_def by blast
qed

lemma get_messages_for_clean:
  "get_messages_for W chats acc = Some (Inr res) \<Longrightarrow> \<forall>r\<in>set acc. no_empty_string (map snd r)
     \<Longrightarrow> \<forall>r\<in>set res. no_empty_string (map snd r)"
proof (induction chats arbitrary: acc)
  case Nil
  then show ?case by simp
next
  case (Cons chat chats)
  from Cons.prems(1) obtain c acc' where
    w: "get_messages_while W c 0 acc = Some (Inr acc')"
    and rest: "get_messages_for W chats acc' = Some (Inr res)"
    by (auto split: sum.splits option.splits)
  from get_messages_while_clean [OF w Cons.prems(2)]
  have "\<forall>r\<in>set acc'. no_empty_string (map snd r)" .
  from Cons.IH [OF rest this] show ?case .
qed


lemma read_table_clean:
  assumes "read_table W t = Some (Inr (Some rows))" and "t \<noteq> ''metadata''"
  shows "\<forall>r\<in>set rows. no_empty_string (map snd r)"
proof -
  have sel: "DataMigrator_select W x = Inr rows \<Longrightarrow> ?thesis" for x
    by (auto simp: DataMigrator_select_def convert_dict_clean split: sum.splits)
  have chats: "DataMigrator_get_chats W = Inr rows \<Longrightarrow> ?thesis"
    by (auto simp: DataMigrator_get_chats_def convert_dict_clean split: sum.splits)
  have msgs: "DataMigrator_get_messages W = Some (Inr rows) \<Longrightarrow> ?thesis"
    using get_messages_for_clean [of W _ "[]" rows]
    by (auto simp: DataMigrator_get_messages_def split: sum.splits)
  have inr: "map_sum id Some x = Inr (Some rows) \<longleftrightarrow> x = Inr rows" for x :: "exn + row list"
    by (cases x) auto
  have opt: "map_option (map_sum id Some) x = Some (Inr (Some rows)) \<longleftrightarrow> x = Some (Inr rows)"
    for x :: "(exn + row list) option"
    by (cases x) (auto simp: inr)
  from assms show ?thesis
    unfolding read_table_def
    by (simp add: inr opt split: if_splits) (blast dest: sel chats msgs)+
qed

lemma pg_adapter_calls: "pg_adapter W c st = (res, st') \<Longrightarrow> calls st' = calls st @ [c]"
  by (auto simp: pg_adapter_def split: prod.splits)

lemma getitem_value: "getitem r k = Inr v \<Longrightarrow> v \<in> set (map snd r)"
  by (auto simp: getitem_def split: option.splits dest!: map_of_SomeD intro: rev_image_eqI)

lemma write_row_calls:
  assumes "write_row W t r st = (res, st')" and "no_empty_string (map snd r)"
    and "t \<noteq> ''metadata''"
  shows "\<exists>cs. calls st' = calls st @ cs \<and> (\<forall>c\<in>set cs. no_empty_string (call_values c))"
proof -
  have val: "getitem r k = Inr v \<Longrightarrow> v \<noteq> PStr []" for k v
    using assms(2) getitem_value [of r k v] unfolding no_empty_string_def by blast
  have sync: "no_empty_string (call_values (Update_sync_status a b c))"
    if "getitem r ka = Inr a" "getitem r kb = Inr b" "getitem r kc = Inr c" for a b c ka kb kc
    using that val by (auto simp: no_empty_string_def)
  have one: "pg_adapter W c st = (res, st') \<Longrightarrow> no_empty_string (call_values c) \<Longrightarrow> ?thesis" for c
    by (auto dest: pg_adapter_calls)
  have none: "st' = st \<Longrightarrow> ?thesis"
    by simp
  have up: "no_empty_string (call_values (Upsert_chat r))"
    "no_empty_string (call_values (Upsert_user r))"
    "no_empty_string (call_values (Upsert_media r))"
    "no_empty_string (call_values (Insert_reactions [r]))"
    using assms(2) by simp_all
  consider "t = ''chats''" | "t = ''messages''" | "t = ''users''" | "t = ''media''"
    | "t = ''reactions''" | "t = ''sync_status''"
    | "t \<noteq> ''chats''" "t \<noteq> ''messages''" "t \<noteq> ''users''" "t \<noteq> ''media''"
      "t \<noteq> ''reactions''" "t \<noteq> ''sync_status''"
    by argo
  then show ?thesis
  proof cases
    case 1
    with assms(1) have "pg_adapter W (Upsert_chat r) st = (res, st')"
      by (simp add: write_row_def)
    from one [OF this up(1)] show ?thesis .
  next
    case 2
    with assms(1) show ?thesis by (simp add: write_row_def)
  next
    case 3
    with assms(1) have "pg_adapter W (Upsert_user r) st = (res, st')"
      by (simp add: write_row_def)
    from one [OF this up(2)] show ?thesis .
  next
    case 4
    with assms(1) have "pg_adapter W (Upsert_media r) st = (res, st')"
      by (simp add: write_row_def)
    from one [OF this up(3)] show ?thesis .
  next
    case 5
    with assms(1) have "pg_adapter W (Insert_reactions [r]) st = (res, st')"
      by (simp add: write_row_def)
    from one [OF this up(4)] show ?thesis .
  next
    case 6
    with assms(1) show ?thesis
      by (auto simp: write_row_def split: sum.splits intro: one [OF _ sync])
  next
    case 7
    with assms(1,3) show ?thesis by (simp add: write_row_def)
  qed
qed

lemma write_rows_calls:
  "write_rows W t None rows n st = (res, st') \<Longrightarrow> \<forall>r\<in>set rows. no_empty_string (map snd r)
     \<Longrightarrow> t \<noteq> ''metadata''
     \<Longrightarrow> \<exists>cs. calls st' = calls st @ cs \<and> (\<forall>c\<in>set cs. no_empty_string (call_values c))"
proof (induction rows arbitrary: n st)
  case Nil
  then show ?case by simp
next
  case (Cons r rs)
  obtain e st1 where w: "write_row W t r st = (e, st1)"
    by (cases "write_row W t r st")
  from Cons.prems(2) have r: "no_empty_string (map snd r)" by simp
  from write_row_calls [OF w r Cons.prems(3)] obtain cs1 where
    cs1: "calls st1 = calls st @ cs1" "\<forall>c\<in>set cs1. no_empty_string (call_values c)"
    by blast
  show ?case
  proof (cases e)
    case None
    with Cons.prems(1) w have "write_rows W t None rs (n + 1) st1 = (res, st')" by simp
    from Cons.IH [OF this] Cons.prems(2,3) obtain cs2 where
      "calls st' = calls st1 @ cs2" "\<forall>c\<in>set cs2. no_empty_string (call_values c)"
      by auto
    with cs1 show ?thesis by auto
  next
    case (Some x)
    with Cons.prems(1) w have "st' = st1" by simp
    with cs1 show ?thesis by blast
  qed
qed

lemma write_table_calls:
  assumes "write_table W t None rows st = (n, st')"
    and "\<forall>r\<in>set rows. no_empty_string (map snd r)" and "t \<noteq> ''metadata''"
  shows "\<exists>cs. calls st' = calls st @ cs \<and> (\<forall>c\<in>set cs. no_empty_string (call_values c))"
proof -
  obtain res st1 where w: "write_rows W t None rows 0 st = (res, st1)"
    by (cases "write_rows W t None rows 0 st")
  from write_rows_calls [OF w assms(2,3)] obtain cs1 where
    cs1: "calls st1 = calls st @ cs1" "\<forall>c\<in>set cs1. no_empty_string (call_values c)"
    by blast
  have rows: "no_empty_string (call_values (Insert_messages rows))"
    using assms(2) by (auto simp: no_empty_string_def)
  from assms(1) w consider
    (plain) "calls st' = calls st1"
    | (batch) st2 e where "pg_adapter W (Insert_messages rows) st1 = (e, st2)" "calls st' = calls st2"
    unfolding write_table_def
    by (auto simp: logger_def split: sum.splits option.splits prod.splits if_splits)
  then show ?thesis
  proof cases
    case plain
    with cs1 show ?thesis by simp
  next
    case batch
    from pg_adapter_calls [OF batch(1)] batch(2) cs1 rows show ?thesis by simp
  qed
qed

text \<open>
  Claim C8, amended. For every row dictionary the normalisation pass keeps the keys and
  their order, replaces every value equal to the empty string by \<open>None\<close> and leaves
  every other value as it is. Every table but metadata is read through the pass, so for
  those tables every call that \<open>migrate_table\<close> (as \<open>main\<close> calls it, without a
  transform function) makes on the target adapter carries no empty-string value.
\<close>

theorem convert_dict_normalises:
  "map fst (convert_dict r) = map fst r \<and>
   map snd (convert_dict r) = map (\<lambda>v. if v = PStr [] then PNone else v) (map snd r) \<and>
   (table_name \<noteq> ''metadata'' \<and> migrate_table W table_name None st = Some (n, st') \<longrightarrow>
      (\<exists>cs. calls st' = calls st @ cs \<and> (\<forall>c\<in>set cs. no_empty_string (call_values c))))"
proof (intro conjI impI)
  assume a: "table_name \<noteq> ''metadata'' \<and> migrate_table W table_name None st = Some (n, st')"
  let ?st = "logger INFO [Lit ''Migrating table: '', Str table_name] st"
  have c0: "calls ?st = calls st" by (simp add: logger_def)
  from a consider
    (nowrite) "calls st' = calls st"
    | (written) rows where "read_table W table_name = Some (Inr (Some rows))"
        "write_table W table_name None rows ?st = (n, st')"
    unfolding migrate_table_def Let_def
    by (auto simp: logger_def split: option.splits sum.splits)
  then show "\<exists>cs. calls st' = calls st @ cs \<and> (\<forall>c\<in>set cs. no_empty_string (call_values c))"
  proof cases
    case nowrite
    then show ?thesis by simp
  next
    case written
    from read_table_clean [OF written(1)] a
    have "\<forall>r\<in>set rows. no_empty_string (map snd r)" by simp
    from write_table_calls [OF written(2) this] a c0 show ?thesis by simp
  qed
qed (simp_all add: convert_dict_keys convert_dict_values)

text \<open>The definitions unfolded to run the model on a concrete scenario.\<close>

lemmas run_defs = getattr_def getitem_def pg_adapter_def logger_def
  recording_call_def recording_get_stats_def migrate_table_def read_table_def
  DataMigrator_select_def DataMigrator_get_chats_def DataMigrator_get_messages_def
  DataMigrator_get_metadata_def write_table_def write_row_def convert_dict_def convert_message_def
  parse_date_def batch_size_def get_messages_while.simps verify_migration_def sqlite_stats_def
  close_connections_def log_success_def test_world_def test_config_def test_chat_def
  test_message_def no_empty_string_def Let_def

text \<open>
  Claim C8 as stated fails for the metadata table: its rows are built from the legacy
  key/value mapping without the normalisation pass, so a metadata value \<open>""\<close> is
  handed to \<open>set_metadata\<close> unchanged.
\<close>

theorem metadata_empty_string_reaches_adapter:
  "map_option (calls \<circ> snd)
     (migrate_table (test_world\<lparr>sqlite_db_get_metadata := Inr [(PStr ''note'', PStr [])]\<rparr>)
        ''metadata'' None \<lparr>pg = [], calls = [], logs = []\<rparr>)
     = Some [Set_metadata (PStr ''note'') (PStr [])] \<and>
   \<not> no_empty_string (call_values (Set_metadata (PStr ''note'') (PStr [])))"
  by (simp add: run_defs)

text \<open>
  The amended claim C8 at a chat whose title is the empty string: the adapter receives
  the title \<open>None\<close>.
\<close>

theorem convert_dict_normalises_witness:
  "''chats'' \<noteq> ''metadata'' \<and>
   migrate_table
      (test_world\<lparr>sqlite_db_get_all_chats :=
          \<lambda>include_empty. Inr [[(''id'', PInt 123), (''title'', PStr [])]]\<rparr>)
      ''chats'' None \<lparr>pg = [], calls = [], logs = []\<rparr>
     = Some (1, \<lparr>pg = [Upsert_chat [(''id'', PInt 123), (''title'', PNone)]],
                 calls = [Upsert_chat [(''id'', PInt 123), (''title'', PNone)]],
                 logs = [(INFO, [Lit ''Migrating table: '', Str ''chats'']),
                         (INFO, [Lit ''Migrated '', Num 1, Lit '' rows from '', Str ''chats''])]\<rparr>) \<and>
   convert_dict [(''id'', PInt 123), (''title'', PStr [])] = [(''id'', PInt 123), (''title'', PNone)] \<and>
   no_empty_string (call_values (Upsert_chat [(''id'', PInt 123), (''title'', PNone)]))"
  using convert_dict_normalises [of "[(''id'', PInt 123), (''title'', PStr [])]" "''chats''"
      "test_world\<lparr>sqlite_db_get_all_chats :=
          \<lambda>include_empty. Inr [[(''id'', PInt 123), (''title'', PStr [])]]\<rparr>"
      "\<lparr>pg = [], calls = [], logs = []\<rparr>" 1
      "\<lparr>pg = [Upsert_chat [(''id'', PInt 123), (''title'', PNone)]],
                 calls = [Upsert_chat [(''id'', PInt 123), (''title'', PNone)]],
                 logs = [(INFO, [Lit ''Migrating table: '', Str ''chats'']),
                         (INFO, [Lit ''Migrated '', Num 1, Lit '' rows from '', Str ''chats''])]\<rparr>"]
  by (simp add: run_defs)

section \<open>Theorems: chat deletion and verification\<close>

lemma filter_none: "\<not> list_ex P (filter (\<lambda>r. \<not> P r) xs)"
  by (simp add: list_ex_iff)

text \<open>
  Claim C4: for a chat id present in the store, \<open>delete_chat\<close> reports \<open>True\<close> and
  leaves no chat row with that id and no message, media or sync-status row of that chat;
  the rows of the other chats and every user row (also of users who sent messages in the
  deleted chat) are unchanged.
\<close>

theorem delete_chat_cascades:
  assumes "list_ex (has_id chat_id) (chat_rows db)"
  shows "fst (delete_chat chat_id db) = True \<and>
    \<not> list_ex (has_id chat_id) (chat_rows (snd (delete_chat chat_id db))) \<and>
    \<not> list_ex (of_chat chat_id) (message_rows (snd (delete_chat chat_id db))) \<and>
    \<not> list_ex (of_chat chat_id) (media_rows (snd (delete_chat chat_id db))) \<and>
    \<not> list_ex (of_chat chat_id) (sync_status_rows (snd (delete_chat chat_id db))) \<and>
    user_rows (snd (delete_chat chat_id db)) = user_rows db \<and>
    filter (\<lambda>r. \<not> has_id chat_id r) (chat_rows (snd (delete_chat chat_id db)))
      = filter (\<lambda>r. \<not> has_id chat_id r) (chat_rows db) \<and>
    filter (\<lambda>r. \<not> of_chat chat_id r) (message_rows (snd (delete_chat chat_id db)))
      = filter (\<lambda>r. \<not> of_chat chat_id r) (message_rows db) \<and>
    filter (\<lambda>r. \<not> of_chat chat_id r) (media_rows (snd (delete_chat chat_id db)))
      = filter (\<lambda>r. \<not> of_chat chat_id r) (media_rows db) \<and>
    filter (\<lambda>r. \<not> of_chat chat_id r) (sync_status_rows (snd (delete_chat chat_id db)))
      = filter (\<lambda>r. \<not> of_chat chat_id r) (sync_status_rows db)"
  using assms by (simp add: delete_chat_def filter_none)

text \<open>
  Claim C4 on a store with two chats: user 7 sent a message in both, chat 123 is deleted.
\<close>

theorem delete_chat_cascades_witness:
  "list_ex (has_id 123)
     (chat_rows \<lparr>chat_rows = [[(''id'', PInt 123)], [(''id'', PInt 456)]],
        message_rows = [[(''id'', PInt 1), (''chat_id'', PInt 123), (''sender_id'', PInt 7)],
                        [(''id'', PInt 2), (''chat_id'', PInt 456), (''sender_id'', PInt 7)]],
        media_rows = [[(''id'', PStr ''f1''), (''chat_id'', PInt 123)]],
        sync_status_rows = [[(''chat_id'', PInt 123), (''last_message_id'', PInt 1)]],
        user_rows = [[(''id'', PInt 7), (''username'', PStr ''alice'')]]\<rparr>) \<and>
   delete_chat 123
     \<lparr>chat_rows = [[(''id'', PInt 123)], [(''id'', PInt 456)]],
      message_rows = [[(''id'', PInt 1), (''chat_id'', PInt 123), (''sender_id'', PInt 7)],
                      [(''id'', PInt 2), (''chat_id'', PInt 456), (''sender_id'', PInt 7)]],
      media_rows = [[(''id'', PStr ''f1''), (''chat_id'', PInt 123)]],
      sync_status_rows = [[(''chat_id'', PInt 123), (''last_message_id'', PInt 1)]],
      user_rows = [[(''id'', PInt 7), (''username'', PStr ''alice'')]]\<rparr>
   = (True,
     \<lparr>chat_rows = [[(''id'', PInt 456)]],
      message_rows = [[(''id'', PInt 2), (''chat_id'', PInt 456), (''sender_id'', PInt 7)]],
      media_rows = [],
      sync_status_rows = [],
      user_rows = [[(''id'', PInt 7), (''username'', PStr ''alice'')]]\<rparr>)"
  using delete_chat_cascades [of 123
     "\<lparr>chat_rows = [[(''id'', PInt 123)], [(''id'', PInt 456)]],
      message_rows = [[(''id'', PInt 1), (''chat_id'', PInt 123), (''sender_id'', PInt 7)],
                      [(''id'', PInt 2), (''chat_id'', PInt 456), (''sender_id'', PInt 7)]],
      media_rows = [[(''id'', PStr ''f1''), (''chat_id'', PInt 123)]],
      sync_status_rows = [[(''chat_id'', PInt 123), (''last_message_id'', PInt 1)]],
      user_rows = [[(''id'', PInt 7), (''username'', PStr ''alice'')]]\<rparr>"]
  by (simp add: delete_chat_def has_id_def of_chat_def)

lemma compare_counts_state:
  "pg (snd (compare_counts stats pg_stats b st)) = pg st \<and>
   calls (snd (compare_counts stats pg_stats b st)) = calls st"
  by (induction stats pg_stats b st rule: compare_counts.induct) (simp_all add: logger_def)

lemma compare_counts_stateD:
  "compare_counts stats pg_stats b st = (r, st') \<Longrightarrow> pg st' = pg st \<and> calls st' = calls st"
  using compare_counts_state [of stats pg_stats b st] by simp

lemma compare_counts_result:
  "fst (compare_counts stats pg_stats b st)
     = (b \<and> list_all (\<lambda>(key, n). n = getattr (pg_stats key) 0) stats)"
  by (induction stats pg_stats b st rule: compare_counts.induct) auto

lemma sum_message_counts_sum:
  "map (\<lambda>chat. getitem chat ''id'') chats = map Inr ids
     \<Longrightarrow> map (sqlite_db_get_message_count W) ids = map Inr counts
     \<Longrightarrow> sum_message_counts W chats = Inr (sum_list counts)"
proof (induction chats arbitrary: ids counts)
  case Nil
  then show ?case by simp
next
  case (Cons chat chats)
  from Cons.prems(1) obtain i ids' where ids: "ids = i # ids'" and i: "getitem chat ''id'' = Inr i"
    and rest: "map (\<lambda>chat. getitem chat ''id'') chats = map Inr ids'"
    by (cases ids) auto
  from Cons.prems(2) ids obtain n counts' where counts: "counts = n # counts'"
    and n: "sqlite_db_get_message_count W i = Inr n"
    and rest': "map (sqlite_db_get_message_count W) ids' = map Inr counts'"
    by (cases counts) auto
  from Cons.IH [OF rest rest'] i n counts show ?case by simp
qed

text \<open>
  Claim C9: \<open>verify_migration\<close> leaves the state of the target adapter as it found it
  and makes no call on it that writes. When the legacy store lists the chats, every
  listed chat has an \<open>id\<close>, \<open>get_message_count\<close> returns for each of them and
  \<open>get_stats\<close> returns, the result is \<open>True\<close> exactly when the number of listed chats
  equals the \<open>chats\<close> entry of \<open>get_stats\<close> and the sum of the message counts of all
  listed chats equals its \<open>messages\<close> entry (an absent entry counts as 0).
\<close>

theorem verify_migration_compares_counts:
  "pg (snd (verify_migration W st)) = pg st \<and>
   calls (snd (verify_migration W st)) = calls st \<and>
   (sqlite_db_get_all_chats W None = Inr chats \<and>
    map (\<lambda>chat. getitem chat ''id'') chats = map Inr ids \<and>
    map (sqlite_db_get_message_count W) ids = map Inr counts \<and>
    pg_adapter_get_stats W (pg st) = Inr pg_stats \<longrightarrow>
      fst (verify_migration W st)
        = Inr (int (length chats) = getattr (pg_stats ''chats'') 0 \<and>
               sum_list counts = getattr (pg_stats ''messages'') 0))"
proof (intro conjI impI)
  show "pg (snd (verify_migration W st)) = pg st"
    by (auto simp: verify_migration_def Let_def logger_def split: sum.splits prod.splits
        dest: compare_counts_stateD)
  show "calls (snd (verify_migration W st)) = calls st"
    by (auto simp: verify_migration_def Let_def logger_def split: sum.splits prod.splits
        dest: compare_counts_stateD)
next
  assume a: "sqlite_db_get_all_chats W None = Inr chats \<and>
    map (\<lambda>chat. getitem chat ''id'') chats = map Inr ids \<and>
    map (sqlite_db_get_message_count W) ids = map Inr counts \<and>
    pg_adapter_get_stats W (pg st) = Inr pg_stats"
  then have "sum_message_counts W chats = Inr (sum_list counts)"
    using sum_message_counts_sum [of chats ids W counts] by simp
  with a have s: "sqlite_stats W
      = Inr [(''chats'', int (length chats)), (''messages'', sum_list counts)]"
    by (simp add: sqlite_stats_def)
  have p: "pg_adapter_get_stats W (pg (logger INFO [Lit ''Verifying migration...''] st))
      = Inr pg_stats"
    using a by (simp add: logger_def)
  show "fst (verify_migration W st)
        = Inr (int (length chats) = getattr (pg_stats ''chats'') 0 \<and>
               sum_list counts = getattr (pg_stats ''messages'') 0)"
    using compare_counts_result
      [of "[(''chats'', int (length chats)), (''messages'', sum_list counts)]" pg_stats True
        "logger INFO [Lit ''Verifying migration...''] st"]
    by (simp add: verify_migration_def Let_def s p split: prod.splits)
qed

text \<open>
  Claim C9 on a legacy store with two chats of one and two messages: with three messages
  in the target the counts match; with only the first chat's message in the target the
  result is \<open>False\<close> and what was written stays.
\<close>

theorem verify_migration_compares_counts_witness:
  "sqlite_db_get_all_chats
      (test_world\<lparr>sqlite_db_get_all_chats :=
           \<lambda>include_empty. Inr [[(''id'', PInt 123)], [(''id'', PInt 456)]],
         sqlite_db_get_message_count := \<lambda>chat_id. Inr (if chat_id = PInt 123 then 1 else 2)\<rparr>)
      None = Inr [[(''id'', PInt 123)], [(''id'', PInt 456)]] \<and>
   map (\<lambda>chat. getitem chat ''id'') [[(''id'', PInt 123)], [(''id'', PInt 456)]]
     = map Inr [PInt 123, PInt 456] \<and>
   map (sqlite_db_get_message_count
      (test_world\<lparr>sqlite_db_get_all_chats :=
           \<lambda>include_empty. Inr [[(''id'', PInt 123)], [(''id'', PInt 456)]],
         sqlite_db_get_message_count := \<lambda>chat_id. Inr (if chat_id = PInt 123 then 1 else 2)\<rparr>))
      [PInt 123, PInt 456] = map Inr [1, 2] \<and>
   fst (verify_migration
      (test_world\<lparr>sqlite_db_get_all_chats :=
           \<lambda>include_empty. Inr [[(''id'', PInt 123)], [(''id'', PInt 456)]],
         sqlite_db_get_message_count := \<lambda>chat_id. Inr (if chat_id = PInt 123 then 1 else 2)\<rparr>)
      \<lparr>pg = [Upsert_chat [(''id'', PInt 123)], Upsert_chat [(''id'', PInt 456)],
             Insert_messages [[(''id'', PInt 1), (''chat_id'', PInt 123)],
                              [(''id'', PInt 2), (''chat_id'', PInt 456)],
                              [(''id'', PInt 3), (''chat_id'', PInt 456)]]],
        calls = [], logs = []\<rparr>) = Inr True \<and>
   fst (verify_migration
      (test_world\<lparr>sqlite_db_get_all_chats :=
           \<lambda>include_empty. Inr [[(''id'', PInt 123)], [(''id'', PInt 456)]],
         sqlite_db_get_message_count := \<lambda>chat_id. Inr (if chat_id = PInt 123 then 1 else 2)\<rparr>)
      \<lparr>pg = [Upsert_chat [(''id'', PInt 123)], Upsert_chat [(''id'', PInt 456)],
             Insert_messages [[(''id'', PInt 1), (''chat_id'', PInt 123)]]],
        calls = [], logs = []\<rparr>) = Inr False \<and>
   pg (snd (verify_migration
      (test_world\<lparr>sqlite_db_get_all_chats :=
           \<lambda>include_empty. Inr [[(''id'', PInt 123)], [(''id'', PInt 456)]],
         sqlite_db_get_message_count := \<lambda>chat_id. Inr (if chat_id = PInt 123 then 1 else 2)\<rparr>)
      \<lparr>pg = [Upsert_chat [(''id'', PInt 123)], Upsert_chat [(''id'', PInt 456)],
             Insert_messages [[(''id'', PInt 1), (''chat_id'', PInt 123)]]],
        calls = [], logs = []\<rparr>))
     = [Upsert_chat [(''id'', PInt 123)], Upsert_chat [(''id'', PInt 456)],
        Insert_messages [[(''id'', PInt 1), (''chat_id'', PInt 123)]]]"
proof -
  let ?W = "test_world\<lparr>sqlite_db_get_all_chats :=
           \<lambda>include_empty. Inr [[(''id'', PInt 123)], [(''id'', PInt 456)]],
         sqlite_db_get_message_count := \<lambda>chat_id. Inr (if chat_id = PInt 123 then 1 else 2)\<rparr>"
  let ?chats = "[[(''id'', PInt 123)], [(''id'', PInt 456)]]"
  let ?s1 = "[Upsert_chat [(''id'', PInt 123)], Upsert_chat [(''id'', PInt 456)],
             Insert_messages [[(''id'', PInt 1), (''chat_id'', PInt 123)],
                              [(''id'', PInt 2), (''chat_id'', PInt 456)],
                              [(''id'', PInt 3), (''chat_id'', PInt 456)]]]"
  let ?s2 = "[Upsert_chat [(''id'', PInt 123)], Upsert_chat [(''id'', PInt 456)],
             Insert_messages [[(''id'', PInt 1), (''chat_id'', PInt 123)]]]"
  have h1: "sqlite_db_get_all_chats ?W None = Inr ?chats" by simp
  have h2: "map (\<lambda>chat. getitem chat ''id'') ?chats = map Inr [PInt 123, PInt 456]"
    by (simp add: getitem_def)
  have h3: "map (sqlite_db_get_message_count ?W) [PInt 123, PInt 456] = map Inr [1, 2]"
    by simp
  have g1: "pg_adapter_get_stats ?W (pg \<lparr>pg = ?s1, calls = [], logs = []\<rparr>)
      = Inr [''chats'' \<mapsto> 2, ''messages'' \<mapsto> 3]"
    by (simp add: test_world_def recording_get_stats_def)
  have g2: "pg_adapter_get_stats ?W (pg \<lparr>pg = ?s2, calls = [], logs = []\<rparr>)
      = Inr [''chats'' \<mapsto> 2, ''messages'' \<mapsto> 1]"
    by (simp add: test_world_def recording_get_stats_def)
  note t1 = verify_migration_compares_counts [of ?W "\<lparr>pg = ?s1, calls = [], logs = []\<rparr>"
      ?chats "[PInt 123, PInt 456]" "[1, 2]" "[''chats'' \<mapsto> 2, ''messages'' \<mapsto> 3]"]
  note t2 = verify_migration_compares_counts [of ?W "\<lparr>pg = ?s2, calls = [], logs = []\<rparr>"
      ?chats "[PInt 123, PInt 456]" "[1, 2]" "[''chats'' \<mapsto> 2, ''messages'' \<mapsto> 1]"]
  from t1 h1 h2 h3 g1
  have r1: "fst (verify_migration ?W \<lparr>pg = ?s1, calls = [], logs = []\<rparr>) = Inr True"
    by (simp add: getattr_def)
  from t2 h1 h2 h3 g2
  have r2: "fst (verify_migration ?W \<lparr>pg = ?s2, calls = [], logs = []\<rparr>) = Inr False"
    by (simp add: getattr_def)
  from t2 have r3: "pg (snd (verify_migration ?W \<lparr>pg = ?s2, calls = [], logs = []\<rparr>)) = ?s2"
    by simp
  from h1 h2 h3 r1 r2 r3 show ?thesis by (intro conjI)
qed


section \<open>Theorems: order of the tables and isolation of failures\<close>

lemma tables_invoked_append:
  "tables_invoked (xs @ ys) = tables_invoked xs @ tables_invoked ys"
  by (simp add: tables_invoked_def map_filter_def)

lemma pg_adapter_logs: "pg_adapter W c st = (r, st') \<Longrightarrow> logs st' = logs st"
  by (auto simp: pg_adapter_def split: prod.splits)

lemma write_row_logs: "write_row W t r st = (e, st') \<Longrightarrow> logs st' = logs st"
  by (auto simp: write_row_def split: if_splits sum.splits dest: pg_adapter_logs)

lemma write_rows_logs: "write_rows W t tf rows n st = (res, st') \<Longrightarrow> logs st' = logs st"
proof (induction rows arbitrary: n st)
  case Nil
  then show ?case by simp
next
  case (Cons r rs)
  then show ?case
    by (auto split: sum.splits option.splits prod.splits dest: write_row_logs)
qed

lemma write_table_invoked:
  "write_table W t tf rows st = (n, st') \<Longrightarrow> tables_invoked (logs st') = tables_invoked (logs st)"
  by (auto simp: write_table_def logger_def tables_invoked_append tables_invoked_def
      map_filter_def
      split: sum.splits option.splits prod.splits if_splits
      dest!: write_rows_logs pg_adapter_logs)

lemma migrate_table_invoked:
  "migrate_table W t tf st = Some (n, st')
     \<Longrightarrow> tables_invoked (logs st') = tables_invoked (logs st) @ [t]"
  by (auto simp: migrate_table_def Let_def logger_def tables_invoked_append tables_invoked_def
      map_filter_def
      split: option.splits sum.splits dest!: write_table_invoked)

lemma migrate_tables_invoked:
  "migrate_tables W ts tot st = Some (n, st')
     \<Longrightarrow> tables_invoked (logs st') = tables_invoked (logs st) @ ts"
proof (induction ts arbitrary: tot st)
  case Nil
  then show ?case by simp
next
  case (Cons t ts)
  from Cons.prems obtain c st1 where m: "migrate_table W t None st = Some (c, st1)"
    and rest: "migrate_tables W ts (tot + c) st1 = Some (n, st')"
    by (auto split: option.splits)
  from Cons.IH [OF rest] migrate_table_invoked [OF m] show ?case by simp
qed

lemma read_table_returns:
  "DataMigrator_get_messages W \<noteq> None \<Longrightarrow> read_table W t \<noteq> None"
  by (simp add: read_table_def)

lemma migrate_table_returns:
  "DataMigrator_get_messages W \<noteq> None \<Longrightarrow> migrate_table W t tf st \<noteq> None"
  using read_table_returns [of W t]
  by (auto simp: migrate_table_def Let_def split: option.splits sum.splits)

lemma migrate_tables_returns:
  "DataMigrator_get_messages W \<noteq> None \<Longrightarrow> migrate_tables W ts tot st \<noteq> None"
proof (induction ts arbitrary: tot st)
  case Nil
  then show ?case by simp
next
  case (Cons t ts)
  from migrate_table_returns [OF Cons.prems, of t None st]
  obtain c st1 where "migrate_table W t None st = Some (c, st1)" by auto
  with Cons.IH [OF Cons.prems, of "tot + c" st1] show ?case by simp
qed

lemma compare_counts_invoked:
  "tables_invoked (logs (snd (compare_counts stats pg_stats b st))) = tables_invoked (logs st)"
  by (induction stats pg_stats b st rule: compare_counts.induct)
    (simp_all add: logger_def tables_invoked_append, simp_all add: tables_invoked_def map_filter_def)

lemma verify_migration_invoked:
  "tables_invoked (logs (snd (verify_migration W st))) = tables_invoked (logs st)"
proof -
  have l: "tables_invoked (logs (logger INFO [Lit ''Verifying migration...''] st))
      = tables_invoked (logs st)"
    by (simp add: logger_def tables_invoked_append) (simp add: tables_invoked_def map_filter_def)
  have c: "compare_counts stats pg_stats b st0 = (r, st1)
      \<Longrightarrow> tables_invoked (logs st1) = tables_invoked (logs st0)" for stats pg_stats b st0 r st1
    using compare_counts_invoked [of stats pg_stats b st0] by simp
  show ?thesis
    unfolding verify_migration_def Let_def
    by (auto split: sum.splits prod.splits dest!: c simp: l)
      (simp_all add: logger_def tables_invoked_append tables_invoked_def map_filter_def)
qed

lemma close_connections_logs: "fst (snd (close_connections W r st)) = logs st"
  by (auto simp: close_connections_def split: prod.splits option.splits dest: pg_adapter_logs)

lemma log_success_invoked:
  "tables_invoked (logs (log_success n bp st)) = tables_invoked (logs st)"
  by (simp add: log_success_def logger_def tables_invoked_append)
    (simp add: tables_invoked_def map_filter_def)

lemma logger_error_invoked:
  "tables_invoked (logs (logger ERROR msg st)) = tables_invoked (logs st)"
  by (simp add: logger_def tables_invoked_append) (simp add: tables_invoked_def map_filter_def)

lemma run_migration_invoked:
  assumes "run_migration W bp st = Some (res, lg, tgt)"
  shows "tables_invoked lg = tables_invoked (logs st) @ tables"
proof -
  from assms obtain tot st1 where m: "migrate_tables W tables 0 st = Some (tot, st1)"
    by (auto simp: run_migration_def split: option.splits)
  obtain v st2 where v: "verify_migration W st1 = (v, st2)"
    by (cases "verify_migration W st1")
  have i2: "tables_invoked (logs st2) = tables_invoked (logs st) @ tables"
    using verify_migration_invoked [of W st1] v migrate_tables_invoked [OF m] by simp
  have key: "?thesis"
    if "close_connections W r st3 = (res, lg, tgt)"
      and "tables_invoked (logs st3) = tables_invoked (logs st2)" for r st3
    using that i2 close_connections_logs [of W r st3] by simp
  show ?thesis
  proof (cases v)
    case (Inl e)
    with assms m v
    have "close_connections W 1 (logger ERROR [Lit ''Migration failed: '', Exc e] st2)
        = (res, lg, tgt)"
      by (simp add: run_migration_def)
    from key [OF this logger_error_invoked] show ?thesis .
  next
    case (Inr success)
    show ?thesis
    proof (cases success)
      case True
      with assms m v Inr
      have "close_connections W 0 (log_success tot bp st2) = (res, lg, tgt)"
        by (simp add: run_migration_def)
      from key [OF this log_success_invoked] show ?thesis .
    next
      case False
      with assms m v Inr
      have "close_connections W 1
              (logger ERROR [Lit [CHR 0x0A], Lit '' Migration verification failed!''] st2)
          = (res, lg, tgt)"
        by (simp add: run_migration_def)
      from key [OF this logger_error_invoked] show ?thesis .
    qed
  qed
qed

lemma DataMigrator_init_invoked:
  "DataMigrator_init W p c lg = Inr st \<Longrightarrow> tables_invoked (logs st) = tables_invoked lg"
  by (auto simp: DataMigrator_init_def Let_def logger_def tables_invoked_append
      split: option.splits sum.splits prod.splits dest!: pg_adapter_logs)
    (simp add: tables_invoked_def map_filter_def)

lemma backup_log_invoked: "tables_invoked (backup_log path pgc) = []"
  by (simp add: backup_log_def main_log_def tables_invoked_def map_filter_def)

lemma run_migration_returns:
  assumes "DataMigrator_get_messages W \<noteq> None"
  shows "run_migration W bp st \<noteq> None"
proof -
  from migrate_tables_returns [OF assms, of tables 0 st]
  obtain tot st1 where "migrate_tables W tables 0 st = Some (tot, st1)" by auto
  moreover obtain v st2 where "verify_migration W st1 = (v, st2)"
    by (cases "verify_migration W st1")
  moreover have "\<exists>a b c. x = (a, b, c)" for x :: "(exn + int) \<times> log_record list \<times> ('a \<times> pg_call list) option"
    by (metis prod_cases3)
  ultimately show ?thesis
    by (cases v) (simp_all add: run_migration_def)
qed

lemma compare_counts_logs:
  "prefix (logs st) (logs (snd (compare_counts stats pg_stats b st)))"
proof (induction stats pg_stats b st rule: compare_counts.induct)
  case (1 pg_stats success st)
  then show ?case by simp
next
  case (2 key n rest pg_stats success st)
  show ?case
  proof (cases "n \<noteq> getattr (pg_stats key) 0")
    case True
    with 2(1) [OF True] show ?thesis
      by (auto simp: logger_def elim: prefix_order.trans [rotated])
  next
    case False
    with 2(2) [OF False] show ?thesis
      by (auto simp: logger_def elim: prefix_order.trans [rotated])
  qed
qed

lemma verify_migration_keeps:
  "pg (snd (verify_migration W st)) = pg st \<and>
   calls (snd (verify_migration W st)) = calls st \<and>
   prefix (logs st) (logs (snd (verify_migration W st)))"
proof -
  define st0 where "st0 = logger INFO [Lit ''Verifying migration...''] st"
  have l: "pg st0 = pg st" "calls st0 = calls st" "prefix (logs st) (logs st0)"
    by (simp_all add: st0_def logger_def)
  have v: "verify_migration W st =
     (case sqlite_stats W of
        Inl e \<Rightarrow> (Inl e, st0)
      | Inr stats \<Rightarrow>
          (case pg_adapter_get_stats W (pg st0) of
             Inl e \<Rightarrow> (Inl e, st0)
           | Inr pg_stats \<Rightarrow>
               (case compare_counts stats pg_stats True st0 of
                  (success, st1) \<Rightarrow>
                    (Inr success,
                     if success then logger INFO [Lit '' Migration verification successful!''] st1
                     else logger ERROR [Lit '' Migration verification failed!''] st1))))"
    unfolding verify_migration_def st0_def Let_def by (rule refl)
  show ?thesis
  proof (cases "sqlite_stats W")
    case (Inl e)
    with l show ?thesis by (simp add: v)
  next
    case (Inr stats)
    note s = this
    show ?thesis
    proof (cases "pg_adapter_get_stats W (pg st0)")
      case (Inl e)
      with s l show ?thesis by (simp add: v)
    next
      case (Inr pg_stats)
      obtain success st1 where c: "compare_counts stats pg_stats True st0 = (success, st1)"
        by (cases "compare_counts stats pg_stats True st0")
      from compare_counts_stateD [OF c] l have k: "pg st1 = pg st" "calls st1 = calls st"
        by simp_all
      from compare_counts_logs [of st0 stats pg_stats True] c l(3)
      have p: "prefix (logs st) (logs st1)"
        by (auto elim: prefix_order.trans)
      from s Inr c k p show ?thesis
        by (simp add: v logger_def)
    qed
  qed
qed

lemma close_connections_target:
  "snd (close_connections W r st)
     = (logs st, Some (snd (pg_adapter_call W Close (pg st)), calls st @ [Close]))"
  by (auto simp: close_connections_def pg_adapter_def split: prod.splits option.splits)

lemma run_migration_target:
  assumes "run_migration W bp st = Some (res, lg, tgt)"
  shows "\<exists>tot st1. migrate_tables W tables 0 st = Some (tot, st1) \<and>
     tgt = Some (snd (pg_adapter_call W Close (pg st1)), calls st1 @ [Close]) \<and>
     prefix (logs st1) lg"
proof -
  from assms obtain tot st1 where m: "migrate_tables W tables 0 st = Some (tot, st1)"
    by (auto simp: run_migration_def split: option.splits)
  obtain v st2 where v: "verify_migration W st1 = (v, st2)"
    by (cases "verify_migration W st1")
  with verify_migration_keeps [of W st1]
  have k: "pg st2 = pg st1" "calls st2 = calls st1" "prefix (logs st1) (logs st2)"
    by simp_all
  have key: "tgt = Some (snd (pg_adapter_call W Close (pg st1)), calls st1 @ [Close]) \<and>
     prefix (logs st1) lg"
    if "close_connections W r st3 = (res, lg, tgt)"
      and "pg st3 = pg st2" and "calls st3 = calls st2" and "prefix (logs st2) (logs st3)"
    for r st3
    using that k close_connections_target [of W r st3]
    by (auto elim: prefix_order.trans)
  have "tgt = Some (snd (pg_adapter_call W Close (pg st1)), calls st1 @ [Close]) \<and>
     prefix (logs st1) lg"
  proof (cases v)
    case (Inl e)
    with assms m v
    have "close_connections W 1 (logger ERROR [Lit ''Migration failed: '', Exc e] st2)
        = (res, lg, tgt)"
      by (simp add: run_migration_def)
    from key [OF this] show ?thesis by (simp add: logger_def)
  next
    case (Inr success)
    show ?thesis
    proof (cases success)
      case True
      with assms m v Inr
      have "close_connections W 0 (log_success tot bp st2) = (res, lg, tgt)"
        by (simp add: run_migration_def)
      from key [OF this] show ?thesis by (simp add: log_success_def logger_def)
    next
      case False
      with assms m v Inr
      have "close_connections W 1
              (logger ERROR [Lit [CHR 0x0A], Lit '' Migration verification failed!''] st2)
          = (res, lg, tgt)"
        by (simp add: run_migration_def)
      from key [OF this] show ?thesis by (simp add: logger_def)
    qed
  qed
  with m show ?thesis by blast
qed

lemma migrate_tables_chain:
  "migrate_tables W tables tot st = Some (n, s7) \<longleftrightarrow>
     (\<exists>c1 s1 c2 s2 c3 s3 c4 s4 c5 s5 c6 s6 c7.
        migrate_table W ''users'' None st = Some (c1, s1) \<and>
        migrate_table W ''chats'' None s1 = Some (c2, s2) \<and>
        migrate_table W ''messages'' None s2 = Some (c3, s3) \<and>
        migrate_table W ''media'' None s3 = Some (c4, s4) \<and>
        migrate_table W ''reactions'' None s4 = Some (c5, s5) \<and>
        migrate_table W ''sync_status'' None s5 = Some (c6, s6) \<and>
        migrate_table W ''metadata'' None s6 = Some (c7, s7) \<and>
        n = tot + c1 + c2 + c3 + c4 + c5 + c6 + c7)"
  by (auto simp: tables_def split: option.splits)


text \<open>
  Claim C6. Whenever \<open>main\<close> returns with a migrator constructed, it has called
  \<open>migrate_table\<close> for users, then chats, then messages, then media, then reactions,
  then sync\_status, then metadata, each call starting from the state the one before
  left; the adapter \<open>main\<close> ends with is the one the call for metadata left, closed,
  and the history of its calls is the history after metadata followed by \<open>close\<close>; the
  log begins with the log after metadata and names these seven tables, in this order,
  as the tables \<open>migrate_table\<close> was entered for. With the credential set, the source
  file present and copied and the migrator constructed, \<open>main\<close> returns with that
  migrator whenever the paging of the legacy messages returns; and \<open>main\<close> returns
  whenever that paging does.
\<close>

theorem main_table_order:
  "(main W = Some (res, lg, Some (s, cs)) \<longrightarrow>
      (\<exists>path st c1 s1 c2 s2 c3 s3 c4 s4 c5 s5 c6 s6 c7 s7.
         DataMigrator_init W path (main_pg_config (Config W))
           (backup_log path (main_pg_config (Config W))) = Inr st \<and>
         migrate_table W ''users'' None st = Some (c1, s1) \<and>
         migrate_table W ''chats'' None s1 = Some (c2, s2) \<and>
         migrate_table W ''messages'' None s2 = Some (c3, s3) \<and>
         migrate_table W ''media'' None s3 = Some (c4, s4) \<and>
         migrate_table W ''reactions'' None s4 = Some (c5, s5) \<and>
         migrate_table W ''sync_status'' None s5 = Some (c6, s6) \<and>
         migrate_table W ''metadata'' None s6 = Some (c7, s7) \<and>
         s = snd (pg_adapter_call W Close (pg s7)) \<and> cs = calls s7 @ [Close] \<and>
         prefix (logs s7) lg \<and>
         tables_invoked lg
           = [''users'', ''chats'', ''messages'', ''media'', ''reactions'', ''sync_status'',
              ''metadata''])) \<and>
   (getattr (getenv W ''POSTGRES_PASSWORD'') [] \<noteq> [] \<and> database_path (Config W) = Some path \<and>
    path_exists W path \<and> copy2 W path (path @ ''.backup'') = None \<and>
    DataMigrator_init W path (main_pg_config (Config W))
           (backup_log path (main_pg_config (Config W))) = Inr st \<and>
    DataMigrator_get_messages W \<noteq> None \<longrightarrow>
      (\<exists>res lg tgt. main W = Some (res, lg, Some tgt))) \<and>
   (DataMigrator_get_messages W \<noteq> None \<longrightarrow> main W \<noteq> None)"
proof (intro conjI impI)
  assume a: "main W = Some (res, lg, Some (s, cs))"
  then obtain path st where
    i: "DataMigrator_init W path (main_pg_config (Config W))
           (backup_log path (main_pg_config (Config W))) = Inr st"
    and r: "run_migration W (path @ ''.backup'') st = Some (res, lg, Some (s, cs))"
    by (auto simp: main_def Let_def split: if_splits option.splits sum.splits)
  from run_migration_target [OF r] obtain tot s7 where
    m: "migrate_tables W tables 0 st = Some (tot, s7)"
    and t: "s = snd (pg_adapter_call W Close (pg s7))" "cs = calls s7 @ [Close]"
    and p: "prefix (logs s7) lg"
    by auto
  from m obtain c1 s1 c2 s2 c3 s3 c4 s4 c5 s5 c6 s6 c7 where
    ch: "migrate_table W ''users'' None st = Some (c1, s1) \<and>
         migrate_table W ''chats'' None s1 = Some (c2, s2) \<and>
         migrate_table W ''messages'' None s2 = Some (c3, s3) \<and>
         migrate_table W ''media'' None s3 = Some (c4, s4) \<and>
         migrate_table W ''reactions'' None s4 = Some (c5, s5) \<and>
         migrate_table W ''sync_status'' None s5 = Some (c6, s6) \<and>
         migrate_table W ''metadata'' None s6 = Some (c7, s7)"
    unfolding migrate_tables_chain by blast
  from run_migration_invoked [OF r] DataMigrator_init_invoked [OF i] backup_log_invoked
  have n: "tables_invoked lg
           = [''users'', ''chats'', ''messages'', ''media'', ''reactions'', ''sync_status'',
              ''metadata'']"
    by (simp add: tables_def)
  from i ch t p n
  show "\<exists>path st c1 s1 c2 s2 c3 s3 c4 s4 c5 s5 c6 s6 c7 s7.
         DataMigrator_init W path (main_pg_config (Config W))
           (backup_log path (main_pg_config (Config W))) = Inr st \<and>
         migrate_table W ''users'' None st = Some (c1, s1) \<and>
         migrate_table W ''chats'' None s1 = Some (c2, s2) \<and>
         migrate_table W ''messages'' None s2 = Some (c3, s3) \<and>
         migrate_table W ''media'' None s3 = Some (c4, s4) \<and>
         migrate_table W ''reactions'' None s4 = Some (c5, s5) \<and>
         migrate_table W ''sync_status'' None s5 = Some (c6, s6) \<and>
         migrate_table W ''metadata'' None s6 = Some (c7, s7) \<and>
         s = snd (pg_adapter_call W Close (pg s7)) \<and> cs = calls s7 @ [Close] \<and>
         prefix (logs s7) lg \<and>
         tables_invoked lg
           = [''users'', ''chats'', ''messages'', ''media'', ''reactions'', ''sync_status'',
              ''metadata'']"
    by blast
next
  assume a: "getattr (getenv W ''POSTGRES_PASSWORD'') [] \<noteq> [] \<and> database_path (Config W) = Some path \<and>
    path_exists W path \<and> copy2 W path (path @ ''.backup'') = None \<and>
    DataMigrator_init W path (main_pg_config (Config W))
           (backup_log path (main_pg_config (Config W))) = Inr st \<and>
    DataMigrator_get_messages W \<noteq> None"
  then have m: "main W = run_migration W (path @ ''.backup'') st"
    by (simp add: main_def Let_def)
  from a have "DataMigrator_get_messages W \<noteq> None" by simp
  from run_migration_returns [OF this, of "path @ ''.backup''" st]
  obtain res lg tgt where r: "run_migration W (path @ ''.backup'') st = Some (res, lg, tgt)"
    by (metis not_Some_eq prod_cases3)
  from run_migration_target [OF r] obtain x where "tgt = Some x" by auto
  with m r show "\<exists>res lg tgt. main W = Some (res, lg, Some tgt)"
    by simp
next
  assume "DataMigrator_get_messages W \<noteq> None"
  from run_migration_returns [OF this] show "main W \<noteq> None"
    by (auto simp: main_def Let_def split: if_splits option.splits sum.splits)
qed


text \<open>The definitions unfolded to run \<open>main\<close> on a concrete scenario.\<close>

lemmas main_defs = main_def main_pg_config_def main_log_def backup_log_def DataMigrator_init_def
  create_database_adapter_def lower_literals run_migration_def tables_def

lemma test_world_messages:
  "DataMigrator_get_messages test_world =
     Some (Inr [[(''id'', PInt 1), (''chat_id'', PInt 123), (''text'', PStr ''Hello from SQLite''),
                 (''date'', PDateTime ''2024-01-01 00:00:00''),
                 (''created_at'', PStr ''2024-01-01 00:00:00'')]])"
  by (simp add: run_defs)

lemma test_world_main:
  "map_option (\<lambda>r. (fst r, tables_invoked (fst (snd r)), map_option snd (snd (snd r))))
     (main test_world)
   = Some (Inr 0,
       [''users'', ''chats'', ''messages'', ''media'', ''reactions'', ''sync_status'', ''metadata''],
       Some [Initialize_schema,
          Upsert_chat
           [(''id'', PInt 123), (''type'', PStr ''private''), (''title'', PStr ''Test Chat''),
            (''username'', PNone), (''first_name'', PStr ''Test User''), (''last_name'', PNone)],
          Insert_messages
           [[(''id'', PInt 1), (''chat_id'', PInt 123), (''text'', PStr ''Hello from SQLite''),
             (''date'', PDateTime ''2024-01-01 00:00:00''),
             (''created_at'', PStr ''2024-01-01 00:00:00'')]],
          Set_metadata (PStr ''owner_id'') (PStr ''456''), Close])"
  by (simp add: run_defs main_defs tables_invoked_def map_filter_def)


text \<open>
  Claim C6 on a legacy store with one row in each of the seven tables: \<open>main\<close>
  returns 0 and the adapter has received, between \<open>initialize_schema\<close> and \<open>close\<close>,
  the user, the chat, the batch of messages, the media file, the reaction, the sync
  status and the metadata key, in this order.
\<close>

theorem main_table_order_witness:
  "map_option (\<lambda>r. (fst r, snd (snd r))) (main (test_world\<lparr>sqlite_db_select_all := full_select_all\<rparr>))
     = Some (Inr 0,
         Some ([Initialize_schema,
           Upsert_user [(''id'', PInt 456), (''username'', PStr ''alice'')],
           Upsert_chat test_chat,
           Insert_messages
             [AList.update ''date'' (PDateTime ''2024-01-01 00:00:00'') test_message],
           Upsert_media [(''id'', PStr ''m1''), (''chat_id'', PInt 123), (''type'', PStr ''photo'')],
           Insert_reactions
             [[(''message_id'', PInt 1), (''chat_id'', PInt 123), (''emoji'', PStr ''+'')]],
           Update_sync_status (PInt 123) (PInt 1) (PInt 1),
           Set_metadata (PStr ''owner_id'') (PStr ''456''),
           Close],
          [Initialize_schema,
           Upsert_user [(''id'', PInt 456), (''username'', PStr ''alice'')],
           Upsert_chat test_chat,
           Insert_messages
             [AList.update ''date'' (PDateTime ''2024-01-01 00:00:00'') test_message],
           Upsert_media [(''id'', PStr ''m1''), (''chat_id'', PInt 123), (''type'', PStr ''photo'')],
           Insert_reactions
             [[(''message_id'', PInt 1), (''chat_id'', PInt 123), (''emoji'', PStr ''+'')]],
           Update_sync_status (PInt 123) (PInt 1) (PInt 1),
           Set_metadata (PStr ''owner_id'') (PStr ''456''),
           Close])) \<and>
   (\<exists>path st c1 s1 c2 s2 c3 s3 c4 s4 c5 s5 c6 s6 c7 s7.
         DataMigrator_init (test_world\<lparr>sqlite_db_select_all := full_select_all\<rparr>) path (main_pg_config (Config (test_world\<lparr>sqlite_db_select_all := full_select_all\<rparr>)))
           (backup_log path (main_pg_config (Config (test_world\<lparr>sqlite_db_select_all := full_select_all\<rparr>)))) = Inr st \<and>
         migrate_table (test_world\<lparr>sqlite_db_select_all := full_select_all\<rparr>) ''users'' None st = Some (c1, s1) \<and>
         migrate_table (test_world\<lparr>sqlite_db_select_all := full_select_all\<rparr>) ''chats'' None s1 = Some (c2, s2) \<and>
         migrate_table (test_world\<lparr>sqlite_db_select_all := full_select_all\<rparr>) ''messages'' None s2 = Some (c3, s3) \<and>
         migrate_table (test_world\<lparr>sqlite_db_select_all := full_select_all\<rparr>) ''media'' None s3 = Some (c4, s4) \<and>
         migrate_table (test_world\<lparr>sqlite_db_select_all := full_select_all\<rparr>) ''reactions'' None s4 = Some (c5, s5) \<and>
         migrate_table (test_world\<lparr>sqlite_db_select_all := full_select_all\<rparr>) ''sync_status'' None s5 = Some (c6, s6) \<and>
         migrate_table (test_world\<lparr>sqlite_db_select_all := full_select_all\<rparr>) ''metadata'' None s6 = Some (c7, s7) \<and>
         [Initialize_schema,
           Upsert_user [(''id'', PInt 456), (''username'', PStr ''alice'')],
           Upsert_chat test_chat,
           Insert_messages
             [AList.update ''date'' (PDateTime ''2024-01-01 00:00:00'') test_message],
           Upsert_media [(''id'', PStr ''m1''), (''chat_id'', PInt 123), (''type'', PStr ''photo'')],
           Insert_reactions
             [[(''message_id'', PInt 1), (''chat_id'', PInt 123), (''emoji'', PStr ''+'')]],
           Update_sync_status (PInt 123) (PInt 1) (PInt 1),
           Set_metadata (PStr ''owner_id'') (PStr ''456''),
           Close] = snd (pg_adapter_call (test_world\<lparr>sqlite_db_select_all := full_select_all\<rparr>) Close (pg s7)) \<and>
         [Initialize_schema,
           Upsert_user [(''id'', PInt 456), (''username'', PStr ''alice'')],
           Upsert_chat test_chat,
           Insert_messages
             [AList.update ''date'' (PDateTime ''2024-01-01 00:00:00'') test_message],
           Upsert_media [(''id'', PStr ''m1''), (''chat_id'', PInt 123), (''type'', PStr ''photo'')],
           Insert_reactions
             [[(''message_id'', PInt 1), (''chat_id'', PInt 123), (''emoji'', PStr ''+'')]],
           Update_sync_status (PInt 123) (PInt 1) (PInt 1),
           Set_metadata (PStr ''owner_id'') (PStr ''456''),
           Close] = calls s7 @ [Close] \<and>
         prefix (logs s7) (fst (snd (the (main (test_world\<lparr>sqlite_db_select_all := full_select_all\<rparr>))))) \<and>
         tables_invoked (fst (snd (the (main (test_world\<lparr>sqlite_db_select_all := full_select_all\<rparr>)))))
           = [''users'', ''chats'', ''messages'', ''media'', ''reactions'', ''sync_status'',
              ''metadata'']) \<and>
   DataMigrator_get_messages (test_world\<lparr>sqlite_db_select_all := full_select_all\<rparr>) \<noteq> None \<and>
   (\<exists>res lg tgt. main (test_world\<lparr>sqlite_db_select_all := full_select_all\<rparr>) = Some (res, lg, Some tgt)) \<and>
   main (test_world\<lparr>sqlite_db_select_all := full_select_all\<rparr>) \<noteq> None"
proof -
  let ?W = "test_world\<lparr>sqlite_db_select_all := full_select_all\<rparr>"
  let ?p = "''/data/telegram_backup.db''"
  let ?CS = "[Initialize_schema,
           Upsert_user [(''id'', PInt 456), (''username'', PStr ''alice'')],
           Upsert_chat test_chat,
           Insert_messages
             [AList.update ''date'' (PDateTime ''2024-01-01 00:00:00'') test_message],
           Upsert_media [(''id'', PStr ''m1''), (''chat_id'', PInt 123), (''type'', PStr ''photo'')],
           Insert_reactions
             [[(''message_id'', PInt 1), (''chat_id'', PInt 123), (''emoji'', PStr ''+'')]],
           Update_sync_status (PInt 123) (PInt 1) (PInt 1),
           Set_metadata (PStr ''owner_id'') (PStr ''456''),
           Close]"
  let ?init = "DataMigrator_init ?W ?p (main_pg_config (Config ?W))
     (backup_log ?p (main_pg_config (Config ?W)))"
  have e0: "map_option (\<lambda>r. (fst r, snd (snd r))) (main ?W) = Some (Inr 0, Some (?CS, ?CS))"
    by (simp add: run_defs main_defs full_select_all_def)
  then have e1: "main ?W = Some (Inr 0, fst (snd (the (main ?W))), Some (?CS, ?CS))"
    by (cases "main ?W") auto
  have c1: "\<exists>path st c1 s1 c2 s2 c3 s3 c4 s4 c5 s5 c6 s6 c7 s7.
         DataMigrator_init ?W path (main_pg_config (Config ?W))
           (backup_log path (main_pg_config (Config ?W))) = Inr st \<and>
         migrate_table ?W ''users'' None st = Some (c1, s1) \<and>
         migrate_table ?W ''chats'' None s1 = Some (c2, s2) \<and>
         migrate_table ?W ''messages'' None s2 = Some (c3, s3) \<and>
         migrate_table ?W ''media'' None s3 = Some (c4, s4) \<and>
         migrate_table ?W ''reactions'' None s4 = Some (c5, s5) \<and>
         migrate_table ?W ''sync_status'' None s5 = Some (c6, s6) \<and>
         migrate_table ?W ''metadata'' None s6 = Some (c7, s7) \<and>
         ?CS = snd (pg_adapter_call ?W Close (pg s7)) \<and>
         ?CS = calls s7 @ [Close] \<and>
         prefix (logs s7) (fst (snd (the (main ?W)))) \<and>
         tables_invoked (fst (snd (the (main ?W))))
           = [''users'', ''chats'', ''messages'', ''media'', ''reactions'', ''sync_status'',
              ''metadata'']"
    using main_table_order [of ?W "Inr 0" "fst (snd (the (main ?W)))" ?CS ?CS, THEN conjunct1] e1
    by (rule mp)
  have g: "DataMigrator_get_messages ?W \<noteq> None"
    by (simp add: run_defs)
  have env: "getattr (getenv ?W ''POSTGRES_PASSWORD'') [] \<noteq> [] \<and>
      database_path (Config ?W) = Some ?p \<and> path_exists ?W ?p \<and>
      copy2 ?W ?p (?p @ ''.backup'') = None"
    by (simp add: getattr_def test_world_def test_config_def)
  have i: "?init = Inr (projr ?init)"
    by (simp add: run_defs main_defs)
  have c2: "\<exists>res lg tgt. main ?W = Some (res, lg, Some tgt)"
    using main_table_order [where W = ?W and path = ?p and st = "projr ?init",
        THEN conjunct2, THEN conjunct1] env i g
    by simp
  have c3: "main ?W \<noteq> None"
    using main_table_order [where W = ?W, THEN conjunct2, THEN conjunct2] g
    by (rule mp)
  from e0 c1 g c2 c3 show ?thesis
    by (intro conjI)
qed

lemma write_rows_run_calls:
  assumes "\<And>r st. r \<in> set rows \<Longrightarrow>
     write_row W t r st = (case a r of Inl e \<Rightarrow> (Some e, st) | Inr c \<Rightarrow> pg_adapter W c st)"
  shows "write_rows W t None rows n st =
     (case run_calls W (map a rows) (pg st) of
        (None, s', made) \<Rightarrow> (Inr (n + length rows), st\<lparr>pg := s', calls := calls st @ made\<rparr>)
      | (Some e, s', made) \<Rightarrow> (Inl e, st\<lparr>pg := s', calls := calls st @ made\<rparr>))"
  using assms
proof (induction rows arbitrary: n st)
  case Nil
  then show ?case by simp
next
  case (Cons r rows)
  have wr: "write_row W t r st = (case a r of Inl e \<Rightarrow> (Some e, st) | Inr c \<Rightarrow> pg_adapter W c st)"
    using Cons.prems by simp
  have ih: "write_rows W t None rows m st' =
     (case run_calls W (map a rows) (pg st') of
        (None, s', made) \<Rightarrow> (Inr (m + length rows), st'\<lparr>pg := s', calls := calls st' @ made\<rparr>)
      | (Some e, s', made) \<Rightarrow> (Inl e, st'\<lparr>pg := s', calls := calls st' @ made\<rparr>))" for m st'
    using Cons.IH [of m st'] Cons.prems by simp
  show ?case
  proof (cases "a r")
    case (Inl e)
    with wr show ?thesis by simp
  next
    case (Inr c)
    obtain x s1 where p: "pg_adapter_call W c (pg st) = (x, s1)"
      by (cases "pg_adapter_call W c (pg st)")
    show ?thesis
    proof (cases x)
      case None
      with Inr wr p show ?thesis
        by (simp add: pg_adapter_def ih split: prod.splits option.splits)
    next
      case (Some e)
      with Inr wr p show ?thesis
        by (simp add: pg_adapter_def)
    qed
  qed
qed


lemma write_table_attempts:
  assumes "\<And>r st. r \<in> set rows \<Longrightarrow>
     write_row W t r st = (case a r of Inl e \<Rightarrow> (Some e, st) | Inr c \<Rightarrow> pg_adapter W c st)"
    and "t \<noteq> ''messages''"
  shows "write_table W t None rows st =
     (case run_calls W (map a rows) (pg st) of
        (None, s', made) \<Rightarrow>
          (length rows,
           \<lparr>pg = s', calls = calls st @ made,
            logs = logs st @
              [(INFO, [Lit ''Migrated '', Num (int (length rows)), Lit '' rows from '', Str t])]\<rparr>)
      | (Some e, s', made) \<Rightarrow>
          (0,
           \<lparr>pg = s', calls = calls st @ made,
            logs = logs st @ [(ERROR, [Lit ''Error migrating '', Str t, Lit '': '', Exc e])]\<rparr>))"
  using assms(2)
  by (simp add: write_table_def write_rows_run_calls [of rows W t a, OF assms(1)] logger_def
      split: prod.splits option.splits)

lemma write_rows_messages:
  "write_rows W ''messages'' None rows n st = (Inr (n + length rows), st)"
  by (induction rows arbitrary: n) (simp_all add: write_row_def)

lemma write_table_messages:
  "write_table W ''messages'' None msgs st =
     (case run_calls W (if msgs = [] then [] else [Inr (Insert_messages msgs)]) (pg st) of
        (None, s', made) \<Rightarrow>
          (length msgs,
           \<lparr>pg = s', calls = calls st @ made,
            logs = logs st @
              [(INFO, [Lit ''Migrated '', Num (int (length msgs)), Lit '' rows from '',
                       Str ''messages''])]\<rparr>)
      | (Some e, s', made) \<Rightarrow>
          (0,
           \<lparr>pg = s', calls = calls st @ made,
            logs = logs st @
              [(ERROR, [Lit ''Error migrating '', Str ''messages'', Lit '': '', Exc e])]\<rparr>))"
  by (simp add: write_table_def write_rows_messages pg_adapter_def logger_def
      split: prod.splits option.splits)

lemma migrate_table_read:
  "migrate_table W t tf st =
     (case read_table W t of
        None \<Rightarrow> None
      | Some (Inl e) \<Rightarrow>
          Some (0, st\<lparr>logs := logs st @
                   [(INFO, [Lit ''Migrating table: '', Str t]),
                    (ERROR, [Lit ''Error reading '', Str t, Lit '' from SQLite: '', Exc e])]\<rparr>)
      | Some (Inr None) \<Rightarrow>
          Some (0, st\<lparr>logs := logs st @
                   [(INFO, [Lit ''Migrating table: '', Str t]),
                    (WARNING, [Lit ''Unknown table: '', Str t])]\<rparr>)
      | Some (Inr (Some rows)) \<Rightarrow>
          Some (write_table W t tf rows
                  (st\<lparr>logs := logs st @ [(INFO, [Lit ''Migrating table: '', Str t])]\<rparr>)))"
  by (simp add: migrate_table_def Let_def logger_def split: option.splits sum.splits)



lemma migrate_table_select:
  assumes t: "t = ''users'' \<or> t = ''media'' \<or> t = ''reactions'' \<or> t = ''sync_status''"
    and tr: "read_table W t = Some (map_sum id Some (DataMigrator_select W t))"
    and wr: "\<And>r st. write_row W t r st
        = (case a r of Inl e \<Rightarrow> (Some e, st) | Inr c \<Rightarrow> pg_adapter W c st)"
  shows "migrate_table W t None st =
     (case sqlite_db_select_all W t of
        Inl e \<Rightarrow>
          Some (0, st\<lparr>logs := logs st @
                   [(INFO, [Lit ''Migrating table: '', Str t]),
                    (ERROR, [Lit ''Error reading '', Str t, Lit '' from SQLite: '', Exc e])]\<rparr>)
      | Inr rows \<Rightarrow>
          (case run_calls W (map (\<lambda>r. a (convert_dict r)) rows) (pg st) of
             (None, s', made) \<Rightarrow>
               Some (length rows,
                 \<lparr>pg = s', calls = calls st @ made,
                  logs = logs st @
                    [(INFO, [Lit ''Migrating table: '', Str t]),
                     (INFO, [Lit ''Migrated '', Num (int (length rows)), Lit '' rows from '',
                             Str t])]\<rparr>)
           | (Some e, s', made) \<Rightarrow>
               Some (0,
                 \<lparr>pg = s', calls = calls st @ made,
                  logs = logs st @
                    [(INFO, [Lit ''Migrating table: '', Str t]),
                     (ERROR, [Lit ''Error migrating '', Str t, Lit '': '', Exc e])]\<rparr>)))"
proof (cases "sqlite_db_select_all W t")
  case (Inl e)
  then show ?thesis
    by (simp add: migrate_table_read tr DataMigrator_select_def)
next
  case (Inr rows)
  let ?st = "st\<lparr>logs := logs st @ [(INFO, [Lit ''Migrating table: '', Str t])]\<rparr>"
  have m: "t \<noteq> ''messages''" using t by auto
  obtain x s' made where rc: "run_calls W (map (\<lambda>r. a (convert_dict r)) rows) (pg st) = (x, s', made)"
    by (cases "run_calls W (map (\<lambda>r. a (convert_dict r)) rows) (pg st)")
  then have rc': "run_calls W (map a (map convert_dict rows)) (pg ?st) = (x, s', made)"
    by (simp add: comp_def)
  have rt: "read_table W t = Some (Inr (Some (map convert_dict rows)))"
    using Inr by (simp add: tr DataMigrator_select_def)
  note w = write_table_attempts [of "map convert_dict rows" W t a ?st, OF wr m, unfolded rc']
  show ?thesis
    by (cases x) (simp_all add: migrate_table_read rt Inr w rc)
qed


lemma migrate_table_chats:
  "migrate_table W ''chats'' None st =
     (case sqlite_db_get_all_chats W (Some True) of
        Inl e \<Rightarrow>
          Some (0, st\<lparr>logs := logs st @
                   [(INFO, [Lit ''Migrating table: '', Str ''chats'']),
                    (ERROR, [Lit ''Error reading '', Str ''chats'', Lit '' from SQLite: '',
                             Exc e])]\<rparr>)
      | Inr rows \<Rightarrow>
          (case run_calls W (map (\<lambda>r. Inr (Upsert_chat (convert_dict r))) rows) (pg st) of
             (None, s', made) \<Rightarrow>
               Some (length rows,
                 \<lparr>pg = s', calls = calls st @ made,
                  logs = logs st @
                    [(INFO, [Lit ''Migrating table: '', Str ''chats'']),
                     (INFO, [Lit ''Migrated '', Num (int (length rows)), Lit '' rows from '',
                             Str ''chats''])]\<rparr>)
           | (Some e, s', made) \<Rightarrow>
               Some (0,
                 \<lparr>pg = s', calls = calls st @ made,
                  logs = logs st @
                    [(INFO, [Lit ''Migrating table: '', Str ''chats'']),
                     (ERROR, [Lit ''Error migrating '', Str ''chats'', Lit '': '', Exc e])]\<rparr>)))"
proof (cases "sqlite_db_get_all_chats W (Some True)")
  case (Inl e)
  then show ?thesis
    by (simp add: migrate_table_read read_table_def DataMigrator_get_chats_def)
next
  case (Inr rows)
  let ?st = "st\<lparr>logs := logs st @ [(INFO, [Lit ''Migrating table: '', Str ''chats''])]\<rparr>"
  let ?a = "\<lambda>r. Inr (Upsert_chat r) :: exn + pg_call"
  have wr: "write_row W ''chats'' r st' =
      (case ?a r of Inl e \<Rightarrow> (Some e, st') | Inr c \<Rightarrow> pg_adapter W c st')" for r st'
    by (simp add: write_row_def)
  have m: "''chats'' \<noteq> ''messages''" by simp
  obtain x s' made where
    rc: "run_calls W (map (\<lambda>r. Inr (Upsert_chat (convert_dict r))) rows) (pg st) = (x, s', made)"
    by (cases "run_calls W (map (\<lambda>r. Inr (Upsert_chat (convert_dict r))) rows) (pg st)")
  then have rc': "run_calls W (map ?a (map convert_dict rows)) (pg ?st) = (x, s', made)"
    by (simp add: comp_def)
  have rt: "read_table W ''chats'' = Some (Inr (Some (map convert_dict rows)))"
    using Inr by (simp add: read_table_def DataMigrator_get_chats_def)
  note w = write_table_attempts [of "map convert_dict rows" W "''chats''" ?a ?st, OF wr m,
      unfolded rc']
  show ?thesis
    by (cases x) (simp_all add: migrate_table_read rt Inr w rc)
qed

lemma migrate_table_metadata:
  "migrate_table W ''metadata'' None st =
     (case sqlite_db_get_metadata W of
        Inl e \<Rightarrow>
          Some (0, st\<lparr>logs := logs st @
                   [(INFO, [Lit ''Migrating table: '', Str ''metadata'']),
                    (ERROR, [Lit ''Error reading '', Str ''metadata'', Lit '' from SQLite: '',
                             Exc e])]\<rparr>)
      | Inr metadata \<Rightarrow>
          (case run_calls W (map (\<lambda>(k, v). Inr (Set_metadata k v)) metadata) (pg st) of
             (None, s', made) \<Rightarrow>
               Some (length metadata,
                 \<lparr>pg = s', calls = calls st @ made,
                  logs = logs st @
                    [(INFO, [Lit ''Migrating table: '', Str ''metadata'']),
                     (INFO, [Lit ''Migrated '', Num (int (length metadata)), Lit '' rows from '',
                             Str ''metadata''])]\<rparr>)
           | (Some e, s', made) \<Rightarrow>
               Some (0,
                 \<lparr>pg = s', calls = calls st @ made,
                  logs = logs st @
                    [(INFO, [Lit ''Migrating table: '', Str ''metadata'']),
                     (ERROR, [Lit ''Error migrating '', Str ''metadata'', Lit '': '',
                              Exc e])]\<rparr>)))"
proof (cases "sqlite_db_get_metadata W")
  case (Inl e)
  then show ?thesis
    by (simp add: migrate_table_read read_table_def DataMigrator_get_metadata_def)
next
  case (Inr metadata)
  let ?st = "st\<lparr>logs := logs st @ [(INFO, [Lit ''Migrating table: '', Str ''metadata''])]\<rparr>"
  let ?a = "\<lambda>r. case getitem r ''key'' of
        Inl e \<Rightarrow> Inl e
      | Inr k \<Rightarrow> (case getitem r ''value'' of Inl e \<Rightarrow> Inl e | Inr v \<Rightarrow> Inr (Set_metadata k v))"
  let ?rows = "map (\<lambda>(k, v). [(''key'', k), (''value'', v)]) metadata"
  have wr: "write_row W ''metadata'' r st' =
      (case ?a r of Inl e \<Rightarrow> (Some e, st') | Inr c \<Rightarrow> pg_adapter W c st')" for r st'
    by (simp add: write_row_def split: sum.splits)
  have m: "''metadata'' \<noteq> ''messages''" by simp
  have a: "map ?a ?rows = map (\<lambda>(k, v). Inr (Set_metadata k v)) metadata"
    by (simp add: getitem_def split_def)
  obtain x s' made where
    rc: "run_calls W (map (\<lambda>(k, v). Inr (Set_metadata k v)) metadata) (pg st) = (x, s', made)"
    by (cases "run_calls W (map (\<lambda>(k, v). Inr (Set_metadata k v)) metadata) (pg st)")
  then have rc': "run_calls W (map ?a ?rows) (pg ?st) = (x, s', made)"
    by (simp only: a) simp
  have rt: "read_table W ''metadata'' = Some (Inr (Some ?rows))"
    using Inr by (simp add: read_table_def DataMigrator_get_metadata_def)
  note w = write_table_attempts [of ?rows W "''metadata''" ?a ?st, OF wr m, unfolded rc']
  show ?thesis
    by (cases x) (simp_all add: migrate_table_read rt Inr w rc)
qed

lemma migrate_table_messages:
  "migrate_table W ''messages'' None st =
     (case DataMigrator_get_messages W of
        None \<Rightarrow> None
      | Some (Inl e) \<Rightarrow>
          Some (0, st\<lparr>logs := logs st @
                   [(INFO, [Lit ''Migrating table: '', Str ''messages'']),
                    (ERROR, [Lit ''Error reading '', Str ''messages'', Lit '' from SQLite: '',
                             Exc e])]\<rparr>)
      | Some (Inr msgs) \<Rightarrow>
          (case run_calls W (if msgs = [] then [] else [Inr (Insert_messages msgs)]) (pg st) of
             (None, s', made) \<Rightarrow>
               Some (length msgs,
                 \<lparr>pg = s', calls = calls st @ made,
                  logs = logs st @
                    [(INFO, [Lit ''Migrating table: '', Str ''messages'']),
                     (INFO, [Lit ''Migrated '', Num (int (length msgs)), Lit '' rows from '',
                             Str ''messages''])]\<rparr>)
           | (Some e, s', made) \<Rightarrow>
               Some (0,
                 \<lparr>pg = s', calls = calls st @ made,
                  logs = logs st @
                    [(INFO, [Lit ''Migrating table: '', Str ''messages'']),
                     (ERROR, [Lit ''Error migrating '', Str ''messages'', Lit '': '',
                              Exc e])]\<rparr>)))"
proof (cases "DataMigrator_get_messages W")
  case None
  then show ?thesis
    by (simp add: migrate_table_read read_table_def)
next
  case (Some rd)
  show ?thesis
  proof (cases rd)
    case (Inl e)
    with Some show ?thesis
      by (simp add: migrate_table_read read_table_def)
  next
    case (Inr msgs)
    let ?st = "st\<lparr>logs := logs st @ [(INFO, [Lit ''Migrating table: '', Str ''messages''])]\<rparr>"
    obtain x s' made where
      rc: "run_calls W (if msgs = [] then [] else [Inr (Insert_messages msgs)]) (pg st)
             = (x, s', made)"
      by (cases "run_calls W (if msgs = [] then [] else [Inr (Insert_messages msgs)]) (pg st)")
    then have rc': "run_calls W (if msgs = [] then [] else [Inr (Insert_messages msgs)]) (pg ?st)
             = (x, s', made)"
      by simp
    have rt: "read_table W ''messages'' = Some (Inr (Some msgs))"
      using Some Inr by (simp add: read_table_def)
    note w = write_table_messages [of W msgs ?st, unfolded rc']
    show ?thesis
      by (cases x) (simp_all add: migrate_table_read rt Some Inr w rc)
  qed
qed



lemma migrate_table_attempts_of:
  assumes "table_attempts W t = Some (map_sum id (\<lambda>rows. (length rows, f rows)) rd)"
    and "migrate_table W t None st =
     (case rd of
        Inl e \<Rightarrow>
          Some (0, st\<lparr>logs := logs st @
                   [(INFO, [Lit ''Migrating table: '', Str t]),
                    (ERROR, [Lit ''Error reading '', Str t, Lit '' from SQLite: '', Exc e])]\<rparr>)
      | Inr rows \<Rightarrow>
          (case run_calls W (f rows) (pg st) of
             (None, s', made) \<Rightarrow>
               Some (length rows,
                 \<lparr>pg = s', calls = calls st @ made,
                  logs = logs st @
                    [(INFO, [Lit ''Migrating table: '', Str t]),
                     (INFO, [Lit ''Migrated '', Num (int (length rows)), Lit '' rows from '',
                             Str t])]\<rparr>)
           | (Some e, s', made) \<Rightarrow>
               Some (0,
                 \<lparr>pg = s', calls = calls st @ made,
                  logs = logs st @
                    [(INFO, [Lit ''Migrating table: '', Str t]),
                     (ERROR, [Lit ''Error migrating '', Str t, Lit '': '', Exc e])]\<rparr>)))"
  shows "migrate_table W t None st =
     (case table_attempts W t of
        None \<Rightarrow> None
      | Some (Inl e) \<Rightarrow>
          Some (0, st\<lparr>logs := logs st @
                   [(INFO, [Lit ''Migrating table: '', Str t]),
                    (ERROR, [Lit ''Error reading '', Str t, Lit '' from SQLite: '', Exc e])]\<rparr>)
      | Some (Inr (n, attempts)) \<Rightarrow>
          (case run_calls W attempts (pg st) of
             (None, s', made) \<Rightarrow>
               Some (n,
                 \<lparr>pg = s', calls = calls st @ made,
                  logs = logs st @
                    [(INFO, [Lit ''Migrating table: '', Str t]),
                     (INFO, [Lit ''Migrated '', Num (int n), Lit '' rows from '', Str t])]\<rparr>)
           | (Some e, s', made) \<Rightarrow>
               Some (0,
                 \<lparr>pg = s', calls = calls st @ made,
                  logs = logs st @
                    [(INFO, [Lit ''Migrating table: '', Str t]),
                     (ERROR, [Lit ''Error migrating '', Str t, Lit '': '', Exc e])]\<rparr>)))"
  unfolding assms by (cases rd) simp_all

lemma migrate_table_attempts:
  assumes "t \<in> set tables"
  shows "migrate_table W t None st =
     (case table_attempts W t of
        None \<Rightarrow> None
      | Some (Inl e) \<Rightarrow>
          Some (0, st\<lparr>logs := logs st @
                   [(INFO, [Lit ''Migrating table: '', Str t]),
                    (ERROR, [Lit ''Error reading '', Str t, Lit '' from SQLite: '', Exc e])]\<rparr>)
      | Some (Inr (n, attempts)) \<Rightarrow>
          (case run_calls W attempts (pg st) of
             (None, s', made) \<Rightarrow>
               Some (n,
                 \<lparr>pg = s', calls = calls st @ made,
                  logs = logs st @
                    [(INFO, [Lit ''Migrating table: '', Str t]),
                     (INFO, [Lit ''Migrated '', Num (int n), Lit '' rows from '', Str t])]\<rparr>)
           | (Some e, s', made) \<Rightarrow>
               Some (0,
                 \<lparr>pg = s', calls = calls st @ made,
                  logs = logs st @
                    [(INFO, [Lit ''Migrating table: '', Str t]),
                     (ERROR, [Lit ''Error migrating '', Str t, Lit '': '', Exc e])]\<rparr>)))"
proof -
  have sel: ?thesis
    if t: "t = ''users'' \<or> t = ''media'' \<or> t = ''reactions'' \<or> t = ''sync_status''"
      and tr: "read_table W t = Some (map_sum id Some (DataMigrator_select W t))"
      and wr: "\<And>r st. write_row W t r st
          = (case a r of Inl e \<Rightarrow> (Some e, st) | Inr c \<Rightarrow> pg_adapter W c st)"
      and ta: "table_attempts W t
          = Some (map_sum id (\<lambda>rows. (length rows, map (\<lambda>r. a (convert_dict r)) rows))
                    (sqlite_db_select_all W t))"
    for a
    using migrate_table_attempts_of [OF ta migrate_table_select [OF t tr wr]] .
  have c1: ?thesis if "t = ''users''"
    unfolding that
    by (rule sel [of "\<lambda>r. Inr (Upsert_user r)", unfolded that])
      (simp_all add: read_table_def write_row_def table_attempts_def)
  have c4: ?thesis if "t = ''media''"
    unfolding that
    by (rule sel [of "\<lambda>r. Inr (Upsert_media r)", unfolded that])
      (simp_all add: read_table_def write_row_def table_attempts_def)
  have c5: ?thesis if "t = ''reactions''"
    unfolding that
    by (rule sel [of "\<lambda>r. Inr (Insert_reactions [r])", unfolded that])
      (simp_all add: read_table_def write_row_def table_attempts_def)
  have c6: ?thesis if "t = ''sync_status''"
    unfolding that
    by (rule sel [of sync_status_attempt, unfolded that])
      (simp_all add: read_table_def write_row_def table_attempts_def sync_status_attempt_def
        split: sum.splits)
  have c2: ?thesis if "t = ''chats''"
    unfolding that
    by (rule migrate_table_attempts_of
        [of W _ "map (\<lambda>r. Inr (Upsert_chat (convert_dict r)))"
          "sqlite_db_get_all_chats W (Some True)"])
      (simp_all add: table_attempts_def migrate_table_chats)
  have c7: ?thesis if "t = ''metadata''"
    unfolding that
    by (rule migrate_table_attempts_of
        [of W _ "map (\<lambda>(k, v). Inr (Set_metadata k v))" "sqlite_db_get_metadata W"])
      (simp_all add: table_attempts_def migrate_table_metadata)
  have c3: ?thesis if "t = ''messages''"
  proof (cases "DataMigrator_get_messages W")
    case None
    then show ?thesis
      unfolding that by (simp add: migrate_table_messages table_attempts_def)
  next
    case (Some rd)
    then show ?thesis
      unfolding that by (cases rd) (simp_all add: migrate_table_messages table_attempts_def)
  qed
  from assms have "t = ''users'' \<or> t = ''chats'' \<or> t = ''messages'' \<or> t = ''media''
    \<or> t = ''reactions'' \<or> t = ''sync_status'' \<or> t = ''metadata''"
    by (simp add: tables_def)
  with c1 c2 c3 c4 c5 c6 c7 show ?thesis by argo
qed


lemma fold_migrate_none:
  "fold (\<lambda>t r. case r of
            None \<Rightarrow> None
          | Some (n, s) \<Rightarrow>
              (case migrate_table W t None s of
                 None \<Rightarrow> None
               | Some (c, s') \<Rightarrow> Some (n + c, s'))) ts None = None"
  by (induction ts) simp_all

lemma migrate_tables_fold:
  "migrate_tables W ts tot st =
     fold (\<lambda>t r. case r of
              None \<Rightarrow> None
            | Some (n, s) \<Rightarrow>
                (case migrate_table W t None s of
                   None \<Rightarrow> None
                 | Some (c, s') \<Rightarrow> Some (n + c, s'))) ts (Some (tot, st))"
proof (induction ts arbitrary: tot st)
  case Nil
  then show ?case by simp
next
  case (Cons t ts)
  show ?case
  proof (cases "migrate_table W t None st")
    case None
    then show ?thesis by (simp add: fold_migrate_none)
  next
    case (Some r)
    then show ?thesis by (cases r) (simp add: Cons.IH)
  qed
qed

text \<open>
  Claim C3. For every table name \<open>t\<close>, transform \<open>tf\<close> and exception \<open>e\<close>:
  when the legacy store raises \<open>e\<close> while \<open>t\<close> is read (the cursor of users, media,
  reactions or sync\_status, the chat listing, the metadata mapping, the listing or
  the paging of the messages), \<open>migrate_table\<close> returns 0, the adapter and the
  history of its calls are as before, and the log has the record of entry and the error
  with the table and the exception. When the rows were read and an attempt on the
  adapter raises \<open>e\<close> (a call, or the evaluation of its arguments), \<open>migrate_table\<close>
  returns 0 with the adapter in the state the failing call left and the error logged.
  \<open>migrate_table\<close> returns whenever the paging of the legacy messages does, and
  never raises. When it returned 0 for \<open>t\<close>, the loop over \<open>t # ts\<close> goes on with
  \<open>ts\<close> from the state \<open>t\<close> left, the total unchanged, and returns. For every list
  \<open>ts\<close> the loop is \<open>migrate_table\<close> applied to each table of \<open>ts\<close> in order, the
  counts added up, whatever each table returned.
\<close>

theorem migrate_table_isolates_failures:
  "((t \<in> {''users'', ''media'', ''reactions'', ''sync_status''} \<and>
       sqlite_db_select_all W t = Inl e) \<or>
    (t = ''chats'' \<and> sqlite_db_get_all_chats W (Some True) = Inl e) \<or>
    (t = ''messages'' \<and>
       (sqlite_db_get_all_chats W None = Inl e \<or> DataMigrator_get_messages W = Some (Inl e))) \<or>
    (t = ''metadata'' \<and> sqlite_db_get_metadata W = Inl e) \<longrightarrow>
      migrate_table W t tf st
        = Some (0, st\<lparr>logs := logs st @
                  [(INFO, [Lit ''Migrating table: '', Str t]),
                   (ERROR, [Lit ''Error reading '', Str t, Lit '' from SQLite: '', Exc e])]\<rparr>)) \<and>
   (t \<in> set tables \<and> table_attempts W t = Some (Inr (n, attempts)) \<and>
    run_calls W attempts (pg st) = (Some e, s', made) \<longrightarrow>
      migrate_table W t None st
        = Some (0, \<lparr>pg = s', calls = calls st @ made,
                    logs = logs st @
                      [(INFO, [Lit ''Migrating table: '', Str t]),
                       (ERROR, [Lit ''Error migrating '', Str t, Lit '': '', Exc e])]\<rparr>)) \<and>
   (DataMigrator_get_messages W \<noteq> None \<longrightarrow>
      (\<exists>c st'. migrate_table W t tf st = Some (c, st'))) \<and>
   (DataMigrator_get_messages W \<noteq> None \<and> migrate_table W t None st = Some (0, st1) \<longrightarrow>
      migrate_tables W (t # ts) tot st = migrate_tables W ts tot st1 \<and>
      (\<exists>tot' st'. migrate_tables W ts tot st1 = Some (tot', st'))) \<and>
   migrate_tables W ts tot st =
     fold (\<lambda>t r. case r of
              None \<Rightarrow> None
            | Some (n, s) \<Rightarrow>
                (case migrate_table W t None s of
                   None \<Rightarrow> None
                 | Some (c, s') \<Rightarrow> Some (n + c, s'))) ts (Some (tot, st))"
proof (intro conjI impI)
  assume a: "(t \<in> {''users'', ''media'', ''reactions'', ''sync_status''} \<and>
       sqlite_db_select_all W t = Inl e) \<or>
    (t = ''chats'' \<and> sqlite_db_get_all_chats W (Some True) = Inl e) \<or>
    (t = ''messages'' \<and>
       (sqlite_db_get_all_chats W None = Inl e \<or> DataMigrator_get_messages W = Some (Inl e))) \<or>
    (t = ''metadata'' \<and> sqlite_db_get_metadata W = Inl e)"
  have "read_table W t = Some (Inl e)"
  proof -
    have r1: "read_table W t = Some (Inl e)"
      if "t = ''users'' \<or> t = ''media'' \<or> t = ''reactions'' \<or> t = ''sync_status''"
        and "sqlite_db_select_all W t = Inl e"
      using that by (elim disjE) (simp_all add: read_table_def DataMigrator_select_def)
    have r2: "read_table W t = Some (Inl e)"
      if "t = ''chats''" and "sqlite_db_get_all_chats W (Some True) = Inl e"
      using that by (simp add: read_table_def DataMigrator_get_chats_def)
    have r3: "read_table W t = Some (Inl e)"
      if "t = ''messages''" and "sqlite_db_get_all_chats W None = Inl e"
      using that by (simp add: read_table_def DataMigrator_get_messages_def)
    have r4: "read_table W t = Some (Inl e)"
      if "t = ''messages''" and "DataMigrator_get_messages W = Some (Inl e)"
      using that by (simp add: read_table_def)
    have r5: "read_table W t = Some (Inl e)"
      if "t = ''metadata''" and "sqlite_db_get_metadata W = Inl e"
      using that by (simp add: read_table_def DataMigrator_get_metadata_def)
    from a have "(t = ''users'' \<or> t = ''media'' \<or> t = ''reactions'' \<or> t = ''sync_status'') \<and>
       sqlite_db_select_all W t = Inl e \<or>
      (t = ''chats'' \<and> sqlite_db_get_all_chats W (Some True) = Inl e) \<or>
      (t = ''messages'' \<and> sqlite_db_get_all_chats W None = Inl e) \<or>
      (t = ''messages'' \<and> DataMigrator_get_messages W = Some (Inl e)) \<or>
      (t = ''metadata'' \<and> sqlite_db_get_metadata W = Inl e)"
      by simp argo
    with r1 r2 r3 r4 r5 show ?thesis by argo
  qed
  then show "migrate_table W t tf st
        = Some (0, st\<lparr>logs := logs st @
                  [(INFO, [Lit ''Migrating table: '', Str t]),
                   (ERROR, [Lit ''Error reading '', Str t, Lit '' from SQLite: '', Exc e])]\<rparr>)"
    by (simp add: migrate_table_read)
next
  assume "t \<in> set tables \<and> table_attempts W t = Some (Inr (n, attempts)) \<and>
    run_calls W attempts (pg st) = (Some e, s', made)"
  then show "migrate_table W t None st
        = Some (0, \<lparr>pg = s', calls = calls st @ made,
                    logs = logs st @
                      [(INFO, [Lit ''Migrating table: '', Str t]),
                       (ERROR, [Lit ''Error migrating '', Str t, Lit '': '', Exc e])]\<rparr>)"
    by (simp add: migrate_table_attempts)
next
  assume "DataMigrator_get_messages W \<noteq> None"
  from migrate_table_returns [OF this, of t tf st]
  show "\<exists>c st'. migrate_table W t tf st = Some (c, st')" by auto
next
  assume "DataMigrator_get_messages W \<noteq> None \<and> migrate_table W t None st = Some (0, st1)"
  then show "migrate_tables W (t # ts) tot st = migrate_tables W ts tot st1" by simp
next
  assume "DataMigrator_get_messages W \<noteq> None \<and> migrate_table W t None st = Some (0, st1)"
  then have "DataMigrator_get_messages W \<noteq> None" by simp
  from migrate_tables_returns [OF this, of ts tot st1]
  show "\<exists>tot' st'. migrate_tables W ts tot st1 = Some (tot', st')" by auto
next
  show "migrate_tables W ts tot st =
     fold (\<lambda>t r. case r of
              None \<Rightarrow> None
            | Some (n, s) \<Rightarrow>
                (case migrate_table W t None s of
                   None \<Rightarrow> None
                 | Some (c, s') \<Rightarrow> Some (n + c, s'))) ts (Some (tot, st))"
    by (rule migrate_tables_fold)
qed


text \<open>
  Claim C3 on the test scenario: reading users raises in the legacy store; with an
  adapter that raises on every call, the chat is attempted and counts 0; with an adapter
  that rejects the batch insert, the messages count 0, and the loop still reads media
  (which raises) and writes the metadata; over the seven tables the chat and the
  metadata key reach that adapter, two rows in all.
\<close>

theorem migrate_table_isolates_failures_witness:
  "sqlite_db_select_all test_world ''users'' = Inl (Exception ''no such table: users'') \<and>
   migrate_table test_world ''users'' None \<lparr>pg = [], calls = [], logs = []\<rparr>
     = Some (0, \<lparr>pg = [], calls = [],
                 logs = [(INFO, [Lit ''Migrating table: '', Str ''users'']),
                         (ERROR, [Lit ''Error reading '', Str ''users'', Lit '' from SQLite: '',
                                  Exc (Exception ''no such table: users'')])]\<rparr>) \<and>
   table_attempts (test_world\<lparr>pg_adapter_call := failing_call\<rparr>) ''chats''
     = Some (Inr (1, [Inr (Upsert_chat test_chat)])) \<and>
   run_calls (test_world\<lparr>pg_adapter_call := failing_call\<rparr>) [Inr (Upsert_chat test_chat)] []
     = (Some (Exception ''connection lost''), [], [Upsert_chat test_chat]) \<and>
   migrate_table (test_world\<lparr>pg_adapter_call := failing_call\<rparr>) ''chats'' None
       \<lparr>pg = [], calls = [], logs = []\<rparr>
     = Some (0, \<lparr>pg = [], calls = [Upsert_chat test_chat],
                 logs = [(INFO, [Lit ''Migrating table: '', Str ''chats'']),
                         (ERROR, [Lit ''Error migrating '', Str ''chats'', Lit '': '',
                                  Exc (Exception ''connection lost'')])]\<rparr>) \<and>
   DataMigrator_get_messages (test_world\<lparr>pg_adapter_call := rejecting_call\<rparr>) \<noteq> None \<and>
   (\<exists>c st'. migrate_table (test_world\<lparr>pg_adapter_call := rejecting_call\<rparr>) ''messages'' None
               \<lparr>pg = [], calls = [], logs = []\<rparr> = Some (c, st')) \<and>
   migrate_table (test_world\<lparr>pg_adapter_call := rejecting_call\<rparr>) ''messages'' None
       \<lparr>pg = [], calls = [], logs = []\<rparr>
     = Some (0, \<lparr>pg = [],
                 calls = [Insert_messages
                            [AList.update ''date'' (PDateTime ''2024-01-01 00:00:00'') test_message]],
                 logs = [(INFO, [Lit ''Migrating table: '', Str ''messages'']),
                         (ERROR, [Lit ''Error migrating '', Str ''messages'', Lit '': '',
                                  Exc (Exception ''duplicate key'')])]\<rparr>) \<and>
   map_option (\<lambda>r. (fst r, pg (snd r), calls (snd r)))
     (migrate_tables (test_world\<lparr>pg_adapter_call := rejecting_call\<rparr>)
        [''messages'', ''media'', ''metadata''] 0 \<lparr>pg = [], calls = [], logs = []\<rparr>)
     = Some (1, [Set_metadata (PStr ''owner_id'') (PStr ''456'')],
             [Insert_messages
                [AList.update ''date'' (PDateTime ''2024-01-01 00:00:00'') test_message],
              Set_metadata (PStr ''owner_id'') (PStr ''456'')]) \<and>
   map_option (\<lambda>r. (fst r, pg (snd r), calls (snd r)))
     (migrate_tables (test_world\<lparr>pg_adapter_call := rejecting_call\<rparr>) tables 0
        \<lparr>pg = [], calls = [], logs = []\<rparr>)
     = Some (2, [Upsert_chat test_chat, Set_metadata (PStr ''owner_id'') (PStr ''456'')],
             [Upsert_chat test_chat,
              Insert_messages
                [AList.update ''date'' (PDateTime ''2024-01-01 00:00:00'') test_message],
              Set_metadata (PStr ''owner_id'') (PStr ''456'')])"
proof -
  let ?st0 = "\<lparr>pg = [], calls = [], logs = []\<rparr> :: pg_call list mstate"
  let ?Wf = "test_world\<lparr>pg_adapter_call := failing_call\<rparr>"
  let ?Wr = "test_world\<lparr>pg_adapter_call := rejecting_call\<rparr>"
  let ?msg = "AList.update ''date'' (PDateTime ''2024-01-01 00:00:00'') test_message"
  let ?e1 = "Exception ''no such table: users''"
  have h1: "sqlite_db_select_all test_world ''users'' = Inl ?e1"
    by (simp add: test_world_def)
  have r1: "migrate_table test_world ''users'' None ?st0
     = Some (0, \<lparr>pg = [], calls = [],
                 logs = [(INFO, [Lit ''Migrating table: '', Str ''users'']),
                         (ERROR, [Lit ''Error reading '', Str ''users'', Lit '' from SQLite: '',
                                  Exc ?e1])]\<rparr>)"
    using migrate_table_isolates_failures
      [where t = "''users''" and W = test_world and e = ?e1 and tf = None and st = ?st0,
        THEN conjunct1] h1
    by simp
  have h2: "table_attempts ?Wf ''chats'' = Some (Inr (1, [Inr (Upsert_chat test_chat)]))"
    by (simp add: table_attempts_def test_world_def convert_dict_def test_chat_def)
  have h3: "run_calls ?Wf [Inr (Upsert_chat test_chat)] []
     = (Some (Exception ''connection lost''), [], [Upsert_chat test_chat])"
    by (simp add: failing_call_def)
  have r2: "migrate_table ?Wf ''chats'' None ?st0
     = Some (0, \<lparr>pg = [], calls = [Upsert_chat test_chat],
                 logs = [(INFO, [Lit ''Migrating table: '', Str ''chats'']),
                         (ERROR, [Lit ''Error migrating '', Str ''chats'', Lit '': '',
                                  Exc (Exception ''connection lost'')])]\<rparr>)"
    using migrate_table_isolates_failures
      [where t = "''chats''" and W = ?Wf and e = "Exception ''connection lost''" and st = ?st0
         and n = 1 and attempts = "[Inr (Upsert_chat test_chat)]" and s' = "[]"
         and made = "[Upsert_chat test_chat]",
        THEN conjunct2, THEN conjunct1] h2 h3
    by (simp add: tables_def)
  have h4: "DataMigrator_get_messages ?Wr = Some (Inr [?msg])"
    by (simp add: run_defs)
  then have h4': "DataMigrator_get_messages ?Wr \<noteq> None" by simp
  have r3: "\<exists>c st'. migrate_table ?Wr ''messages'' None ?st0 = Some (c, st')"
    using migrate_table_isolates_failures
      [where t = "''messages''" and W = ?Wr and tf = None and st = ?st0,
        THEN conjunct2, THEN conjunct2, THEN conjunct1] h4'
    by (rule mp)
  have h5: "table_attempts ?Wr ''messages'' = Some (Inr (1, [Inr (Insert_messages [?msg])]))"
    by (simp add: table_attempts_def h4)
  have h6: "run_calls ?Wr [Inr (Insert_messages [?msg])] []
     = (Some (Exception ''duplicate key''), [], [Insert_messages [?msg]])"
    by simp
  have r4: "migrate_table ?Wr ''messages'' None ?st0
     = Some (0, \<lparr>pg = [], calls = [Insert_messages [?msg]],
                 logs = [(INFO, [Lit ''Migrating table: '', Str ''messages'']),
                         (ERROR, [Lit ''Error migrating '', Str ''messages'', Lit '': '',
                                  Exc (Exception ''duplicate key'')])]\<rparr>)"
    using migrate_table_isolates_failures
      [where t = "''messages''" and W = ?Wr and e = "Exception ''duplicate key''" and st = ?st0
         and n = 1 and attempts = "[Inr (Insert_messages [?msg])]" and s' = "[]"
         and made = "[Insert_messages [?msg]]",
        THEN conjunct2, THEN conjunct1] h5 h6
    by (simp add: tables_def)
  let ?st1 = "\<lparr>pg = [], calls = [Insert_messages [?msg]],
                 logs = [(INFO, [Lit ''Migrating table: '', Str ''messages'']),
                         (ERROR, [Lit ''Error migrating '', Str ''messages'', Lit '': '',
                                  Exc (Exception ''duplicate key'')])]\<rparr> :: pg_call list mstate"
  have r5: "migrate_tables ?Wr (''messages'' # [''media'', ''metadata'']) 0 ?st0
      = migrate_tables ?Wr [''media'', ''metadata''] 0 ?st1"
    using migrate_table_isolates_failures
      [where t = "''messages''" and W = ?Wr and st = ?st0 and ?st1.0 = ?st1
         and ts = "[''media'', ''metadata'']" and tot = 0,
        THEN conjunct2, THEN conjunct2, THEN conjunct2, THEN conjunct1] h4' r4
    by simp
  have r6: "map_option (\<lambda>r. (fst r, pg (snd r), calls (snd r)))
       (migrate_tables ?Wr [''media'', ''metadata''] 0 ?st1)
     = Some (1, [Set_metadata (PStr ''owner_id'') (PStr ''456'')],
             [Insert_messages [?msg], Set_metadata (PStr ''owner_id'') (PStr ''456'')])"
    by (simp add: run_defs)
  have r7: "map_option (\<lambda>r. (fst r, pg (snd r), calls (snd r)))
       (migrate_tables ?Wr tables 0 ?st0)
     = Some (2, [Upsert_chat test_chat, Set_metadata (PStr ''owner_id'') (PStr ''456'')],
             [Upsert_chat test_chat, Insert_messages [?msg],
              Set_metadata (PStr ''owner_id'') (PStr ''456'')])"
    unfolding migrate_table_isolates_failures
      [where W = ?Wr and ts = tables and tot = 0 and st = ?st0,
        THEN conjunct2, THEN conjunct2, THEN conjunct2, THEN conjunct2]
    by (simp add: run_defs tables_def)
  from h1 r1 h2 h3 r2 h4' r3 r4 r5 r6 r7 show ?thesis
    by (simp only: simp_thms) 
qed


section \<open>Theorems: exit status\<close>

lemma verify_migration_pg: "pg (snd (verify_migration W st)) = pg st"
proof -
  have c: "compare_counts stats pg_stats b st0 = (r, st1) \<Longrightarrow> pg st1 = pg st0"
    for stats pg_stats b st0 r st1
    by (induction stats pg_stats b st0 rule: compare_counts.induct)
      (auto simp: logger_def split: if_splits)
  show ?thesis
    by (auto simp: verify_migration_def Let_def logger_def split: sum.splits prod.splits dest: c)
qed

lemma close_connections_fst:
  "fst (close_connections W r st) =
     (case fst (pg_adapter_call W Close (pg st)) of
        Some e \<Rightarrow> Inl e
      | None \<Rightarrow> (case sqlite_db_close W of Some e \<Rightarrow> Inl e | None \<Rightarrow> Inr r))"
  by (auto simp: close_connections_def pg_adapter_def split: prod.splits option.splits)

lemma run_migration_result:
  assumes "migrate_tables W tables 0 st = Some (tot, st1)"
  shows "map_option fst (run_migration W bp st)
    = Some (case fst (pg_adapter_call W Close (pg st1)) of
              Some e \<Rightarrow> Inl e
            | None \<Rightarrow>
                (case sqlite_db_close W of
                   Some e \<Rightarrow> Inl e
                 | None \<Rightarrow> Inr (if fst (verify_migration W st1) = Inr True then 0 else 1)))"
proof -
  obtain v st2 where v: "verify_migration W st1 = (v, st2)"
    by (cases "verify_migration W st1")
  with verify_migration_pg [of W st1] have p: "pg st2 = pg st1" by simp
  have cl: "fst (close_connections W r st3) =
     (case fst (pg_adapter_call W Close (pg st1)) of
        Some e \<Rightarrow> Inl e
      | None \<Rightarrow> (case sqlite_db_close W of Some e \<Rightarrow> Inl e | None \<Rightarrow> Inr r))"
    if "pg st3 = pg st2" for r st3
    using close_connections_fst [of W r st3] p that by simp
  show ?thesis
  proof (cases v)
    case (Inl e)
    with assms v show ?thesis
      by (simp add: run_migration_def cl logger_def)
  next
    case (Inr success)
    with assms v show ?thesis
      by (cases success) (simp_all add: run_migration_def cl logger_def log_success_def)
  qed
qed

lemma run_migration_exit_zero:
  assumes "map_option fst (run_migration W bp st) = Some (Inr 0)"
  shows "\<exists>tot st1. migrate_tables W tables 0 st = Some (tot, st1) \<and>
     fst (verify_migration W st1) = Inr True \<and>
     fst (pg_adapter_call W Close (pg st1)) = None \<and> sqlite_db_close W = None"
proof -
  from assms obtain tot st1 where m: "migrate_tables W tables 0 st = Some (tot, st1)"
    by (auto simp: run_migration_def split: option.splits)
  from assms run_migration_result [OF m, of bp]
  have "fst (verify_migration W st1) = Inr True \<and>
     fst (pg_adapter_call W Close (pg st1)) = None \<and> sqlite_db_close W = None"
    by (auto split: option.splits if_splits)
  with m show ?thesis by blast
qed

text \<open>
  Claim C2, amended. \<open>main\<close> returns 1 when the credential is missing or empty, when
  the source store file is missing, and when constructing the migrator raises. When
  copying the source file to its backup raises, \<open>main\<close> raises that exception (the copy
  is outside the \<open>try\<close> block). Once the migrator is constructed and the table loop has
  returned, \<open>main\<close> closes the target adapter and then the legacy store: when one of
  the two close calls raises, \<open>main\<close> raises that exception; otherwise it returns 0
  when \<open>verify_migration\<close> returns \<open>True\<close>, and 1 when it returns \<open>False\<close> or
  raises. Conversely an exit status 0 means that the migrator was constructed, the
  table loop returned, the verification returned \<open>True\<close> and neither close call
  raised. An exception caught inside \<open>migrate_table\<close> is not among the causes of exit
  status 1.
\<close>

theorem main_exit_status:
  "(getattr (getenv W ''POSTGRES_PASSWORD'') [] = [] \<longrightarrow> map_option fst (main W) = Some (Inr 1)) \<and>
   (getattr (getenv W ''POSTGRES_PASSWORD'') [] \<noteq> [] \<and> database_path (Config W) = Some path \<and>
    \<not> path_exists W path \<longrightarrow> map_option fst (main W) = Some (Inr 1)) \<and>
   (getattr (getenv W ''POSTGRES_PASSWORD'') [] \<noteq> [] \<and> database_path (Config W) = Some path \<and>
    path_exists W path \<and> copy2 W path (path @ ''.backup'') = Some e \<longrightarrow>
      map_option fst (main W) = Some (Inl e)) \<and>
   (getattr (getenv W ''POSTGRES_PASSWORD'') [] \<noteq> [] \<and> database_path (Config W) = Some path \<and>
    path_exists W path \<and> copy2 W path (path @ ''.backup'') = None \<and>
    DataMigrator_init W path (main_pg_config (Config W))
      (backup_log path (main_pg_config (Config W))) = Inl e \<longrightarrow>
      map_option fst (main W) = Some (Inr 1)) \<and>
   (getattr (getenv W ''POSTGRES_PASSWORD'') [] \<noteq> [] \<and> database_path (Config W) = Some path \<and>
    path_exists W path \<and> copy2 W path (path @ ''.backup'') = None \<and>
    DataMigrator_init W path (main_pg_config (Config W))
      (backup_log path (main_pg_config (Config W))) = Inr st \<and>
    migrate_tables W tables 0 st = Some (tot, st1) \<longrightarrow>
      map_option fst (main W)
        = Some (case fst (pg_adapter_call W Close (pg st1)) of
                  Some e \<Rightarrow> Inl e
                | None \<Rightarrow>
                    (case sqlite_db_close W of
                       Some e \<Rightarrow> Inl e
                     | None \<Rightarrow>
                         Inr (if fst (verify_migration W st1) = Inr True then 0 else 1)))) \<and>
   (map_option fst (main W) = Some (Inr 0) \<longrightarrow>
      (\<exists>path st tot st1.
         DataMigrator_init W path (main_pg_config (Config W))
           (backup_log path (main_pg_config (Config W))) = Inr st \<and>
         migrate_tables W tables 0 st = Some (tot, st1) \<and>
         fst (verify_migration W st1) = Inr True \<and>
         fst (pg_adapter_call W Close (pg st1)) = None \<and> sqlite_db_close W = None))"
proof (intro conjI impI)
  assume a: "getattr (getenv W ''POSTGRES_PASSWORD'') [] \<noteq> [] \<and>
    database_path (Config W) = Some path \<and>
    path_exists W path \<and> copy2 W path (path @ ''.backup'') = None \<and>
    DataMigrator_init W path (main_pg_config (Config W))
      (backup_log path (main_pg_config (Config W))) = Inr st \<and>
    migrate_tables W tables 0 st = Some (tot, st1)"
  then have "main W = run_migration W (path @ ''.backup'') st"
    by (simp add: main_def Let_def)
  with a run_migration_result [of W st tot st1 "path @ ''.backup''"]
  show "map_option fst (main W)
        = Some (case fst (pg_adapter_call W Close (pg st1)) of
                  Some e \<Rightarrow> Inl e
                | None \<Rightarrow>
                    (case sqlite_db_close W of
                       Some e \<Rightarrow> Inl e
                     | None \<Rightarrow>
                         Inr (if fst (verify_migration W st1) = Inr True then 0 else 1)))"
    by simp
next
  assume z: "map_option fst (main W) = Some (Inr 0)"
  then obtain path st where
    i: "DataMigrator_init W path (main_pg_config (Config W))
          (backup_log path (main_pg_config (Config W))) = Inr st"
    and r: "main W = run_migration W (path @ ''.backup'') st"
    by (auto simp: main_def Let_def split: if_splits option.splits sum.splits)
  from z r run_migration_exit_zero [of W "path @ ''.backup''" st] i
  show "\<exists>path st tot st1.
         DataMigrator_init W path (main_pg_config (Config W))
           (backup_log path (main_pg_config (Config W))) = Inr st \<and>
         migrate_tables W tables 0 st = Some (tot, st1) \<and>
         fst (verify_migration W st1) = Inr True \<and>
         fst (pg_adapter_call W Close (pg st1)) = None \<and> sqlite_db_close W = None"
    by auto
qed (simp_all add: main_def Let_def)

text \<open>
  Claim C2 as stated fails on the test scenario: reading the table users raises, the
  table counts 0 rows, and \<open>main\<close> still returns 0, because the verification compares
  chats and messages only.
\<close>

theorem table_failure_exit_zero:
  "read_table test_world ''users'' = Some (Inl (Exception ''no such table: users'')) \<and>
   map_option fst (migrate_table test_world ''users'' None
                     \<lparr>pg = [Initialize_schema], calls = [Initialize_schema], logs = []\<rparr>)
     = Some 0 \<and>
   map_option fst (main test_world) = Some (Inr 0)"
proof -
  have "read_table test_world ''users'' = Some (Inl (Exception ''no such table: users''))"
    by (simp add: run_defs)
  moreover have "map_option fst (migrate_table test_world ''users'' None
                     \<lparr>pg = [Initialize_schema], calls = [Initialize_schema], logs = []\<rparr>)
     = Some 0"
    by (simp add: run_defs)
  moreover have "map_option fst (main test_world) = Some (Inr 0)"
    using test_world_main by (cases "main test_world") auto
  ultimately show ?thesis by simp
qed


text \<open>
  The amended claim C2 on seven scenarios: no credential; no source file; a networked
  backend that refuses the connection; the test scenario, where the verification passes;
  a legacy store that reports five messages where one was migrated; a backup copy that
  raises; and a legacy store whose \<open>close\<close> raises.
\<close>

theorem main_exit_status_witness:
  "map_option fst (main (test_world\<lparr>getenv := \<lambda>k. None\<rparr>)) = Some (Inr 1) \<and>
   map_option fst (main (test_world\<lparr>path_exists := \<lambda>p. False\<rparr>)) = Some (Inr 1) \<and>
   DataMigrator_init (test_world\<lparr>PostgreSQLAdapter := \<lambda>a. Inl (Exception ''connection refused'')\<rparr>)
      ''/data/telegram_backup.db'' (main_pg_config test_config)
      (backup_log ''/data/telegram_backup.db'' (main_pg_config test_config))
     = Inl (Exception ''connection refused'') \<and>
   map_option fst
     (main (test_world\<lparr>PostgreSQLAdapter := \<lambda>a. Inl (Exception ''connection refused'')\<rparr>))
     = Some (Inr 1) \<and>
   fst (verify_migration test_world
         (snd (the (migrate_tables test_world tables 0
            (projr (DataMigrator_init test_world ''/data/telegram_backup.db''
               (main_pg_config test_config)
               (backup_log ''/data/telegram_backup.db'' (main_pg_config test_config)))))))) = Inr True \<and>
   map_option fst (main test_world) = Some (Inr 0) \<and>
   fst (verify_migration (test_world\<lparr>sqlite_db_get_message_count := \<lambda>c. Inr 5\<rparr>)
         (snd (the (migrate_tables (test_world\<lparr>sqlite_db_get_message_count := \<lambda>c. Inr 5\<rparr>) tables 0
            (projr (DataMigrator_init (test_world\<lparr>sqlite_db_get_message_count := \<lambda>c. Inr 5\<rparr>)
               ''/data/telegram_backup.db''
               (main_pg_config test_config)
               (backup_log ''/data/telegram_backup.db'' (main_pg_config test_config)))))))) = Inr False \<and>
   map_option fst (main (test_world\<lparr>sqlite_db_get_message_count := \<lambda>c. Inr 5\<rparr>)) = Some (Inr 1) \<and>
   map_option fst (main (test_world\<lparr>copy2 := \<lambda>src dst. Some (Exception ''disk full'')\<rparr>))
     = Some (Inl (Exception ''disk full'')) \<and>
   map_option fst (main (test_world\<lparr>sqlite_db_close := Some (Exception ''close failed'')\<rparr>))
     = Some (Inl (Exception ''close failed''))"
proof -
  let ?p = "''/data/telegram_backup.db''"
  let ?W3 = "test_world\<lparr>PostgreSQLAdapter := \<lambda>a. Inl (Exception ''connection refused'')\<rparr>"
  let ?W5 = "test_world\<lparr>sqlite_db_get_message_count := \<lambda>c. Inr 5\<rparr>"
  let ?W6 = "test_world\<lparr>sqlite_db_close := Some (Exception ''close failed'')\<rparr>"
  let ?W7 = "test_world\<lparr>copy2 := \<lambda>src dst. Some (Exception ''disk full'')\<rparr>"
  let ?init = "\<lambda>W. DataMigrator_init W ?p (main_pg_config test_config)
      (backup_log ?p (main_pg_config test_config))"
  have c: "Config test_world = test_config" "Config ?W3 = test_config" "Config ?W5 = test_config"
    "Config ?W6 = test_config" "Config ?W7 = test_config"
    by (simp_all add: test_world_def)
  have h1: "getattr (getenv (test_world\<lparr>getenv := \<lambda>k. None\<rparr>) ''POSTGRES_PASSWORD'') [] = []"
    by (simp add: getattr_def)
  have h2: "getattr (getenv (test_world\<lparr>path_exists := \<lambda>p. False\<rparr>) ''POSTGRES_PASSWORD'') [] \<noteq> [] \<and>
      database_path (Config (test_world\<lparr>path_exists := \<lambda>p. False\<rparr>)) = Some ?p \<and>
      \<not> path_exists (test_world\<lparr>path_exists := \<lambda>p. False\<rparr>) ?p"
    by (simp add: getattr_def test_world_def test_config_def)
  have env4: "getattr (getenv test_world ''POSTGRES_PASSWORD'') [] \<noteq> [] \<and>
      database_path (Config test_world) = Some ?p \<and> path_exists test_world ?p \<and>
      copy2 test_world ?p (?p @ ''.backup'') = None \<and>
      fst (pg_adapter_call test_world Close s) = None \<and> sqlite_db_close test_world = None" for s
    by (simp add: getattr_def test_world_def test_config_def recording_call_def)
  have env3: "getattr (getenv ?W3 ''POSTGRES_PASSWORD'') [] \<noteq> [] \<and>
      database_path (Config ?W3) = Some ?p \<and> path_exists ?W3 ?p \<and>
      copy2 ?W3 ?p (?p @ ''.backup'') = None"
    by (simp add: getattr_def test_world_def test_config_def recording_call_def)
  have env5: "getattr (getenv ?W5 ''POSTGRES_PASSWORD'') [] \<noteq> [] \<and>
      database_path (Config ?W5) = Some ?p \<and> path_exists ?W5 ?p \<and>
      copy2 ?W5 ?p (?p @ ''.backup'') = None \<and>
      fst (pg_adapter_call ?W5 Close s) = None \<and> sqlite_db_close ?W5 = None" for s
    by (simp add: getattr_def test_world_def test_config_def recording_call_def)
  have i3: "?init ?W3 = Inl (Exception ''connection refused'')"
    by (simp add: run_defs main_defs)
  have i4: "?init test_world = Inr (projr (?init test_world))"
    by (simp add: run_defs main_defs)
  have i5: "?init ?W5 = Inr (projr (?init ?W5))"
    by (simp add: run_defs main_defs)
  have m4: "migrate_tables test_world tables 0 (projr (?init test_world))
      = Some (fst (the (migrate_tables test_world tables 0 (projr (?init test_world)))),
              snd (the (migrate_tables test_world tables 0 (projr (?init test_world)))))"
    using migrate_tables_returns [of test_world tables 0 "projr (?init test_world)"]
      test_world_messages by auto
  have g5: "DataMigrator_get_messages ?W5 \<noteq> None"
    by (simp add: run_defs)
  have m5: "migrate_tables ?W5 tables 0 (projr (?init ?W5))
      = Some (fst (the (migrate_tables ?W5 tables 0 (projr (?init ?W5)))),
              snd (the (migrate_tables ?W5 tables 0 (projr (?init ?W5)))))"
    using migrate_tables_returns [OF g5, of tables 0 "projr (?init ?W5)"] by auto
  have v4: "fst (verify_migration test_world
         (snd (the (migrate_tables test_world tables 0 (projr (?init test_world)))))) = Inr True"
    by (simp add: run_defs main_defs)
  have v5: "fst (verify_migration ?W5
         (snd (the (migrate_tables ?W5 tables 0 (projr (?init ?W5)))))) = Inr False"
    by (simp add: run_defs main_defs)
  have r1: "map_option fst (main (test_world\<lparr>getenv := \<lambda>k. None\<rparr>)) = Some (Inr 1)"
    using main_exit_status [of "test_world\<lparr>getenv := \<lambda>k. None\<rparr>", THEN conjunct1] h1
    by (rule mp)
  have r2: "map_option fst (main (test_world\<lparr>path_exists := \<lambda>p. False\<rparr>)) = Some (Inr 1)"
    using main_exit_status [of "test_world\<lparr>path_exists := \<lambda>p. False\<rparr>" ?p,
        THEN conjunct2, THEN conjunct1] h2
    by (rule mp)
  have r3: "map_option fst (main ?W3) = Some (Inr 1)"
    using main_exit_status [of ?W3 ?p "Exception ''connection refused''",
        THEN conjunct2, THEN conjunct2, THEN conjunct2, THEN conjunct1] env3 i3 c(2)
    by simp
  have r4: "map_option fst (main test_world) = Some (Inr 0)"
    using main_exit_status [of test_world ?p _ "projr (?init test_world)"
      "fst (the (migrate_tables test_world tables 0 (projr (?init test_world))))"
      "snd (the (migrate_tables test_world tables 0 (projr (?init test_world))))",
        THEN conjunct2, THEN conjunct2, THEN conjunct2, THEN conjunct2, THEN conjunct1]
      env4 i4 m4 v4 c(1)
    by simp
  have r5: "map_option fst (main ?W5) = Some (Inr 1)"
    using main_exit_status [of ?W5 ?p _ "projr (?init ?W5)"
      "fst (the (migrate_tables ?W5 tables 0 (projr (?init ?W5))))"
      "snd (the (migrate_tables ?W5 tables 0 (projr (?init ?W5))))",
        THEN conjunct2, THEN conjunct2, THEN conjunct2, THEN conjunct2, THEN conjunct1]
      env5 i5 m5 v5 c(3)
    by simp
  have env6: "getattr (getenv ?W6 ''POSTGRES_PASSWORD'') [] \<noteq> [] \<and>
      database_path (Config ?W6) = Some ?p \<and> path_exists ?W6 ?p \<and>
      copy2 ?W6 ?p (?p @ ''.backup'') = None \<and>
      fst (pg_adapter_call ?W6 Close s) = None \<and>
      sqlite_db_close ?W6 = Some (Exception ''close failed'')" for s
    by (simp add: getattr_def test_world_def test_config_def recording_call_def)
  have i6: "?init ?W6 = Inr (projr (?init ?W6))"
    by (simp add: run_defs main_defs)
  have g6: "DataMigrator_get_messages ?W6 \<noteq> None"
    by (simp add: run_defs)
  have m6: "migrate_tables ?W6 tables 0 (projr (?init ?W6))
      = Some (fst (the (migrate_tables ?W6 tables 0 (projr (?init ?W6)))),
              snd (the (migrate_tables ?W6 tables 0 (projr (?init ?W6)))))"
    using migrate_tables_returns [OF g6, of tables 0 "projr (?init ?W6)"] by auto
  have r6: "map_option fst (main ?W6) = Some (Inl (Exception ''close failed''))"
    using main_exit_status [of ?W6 ?p _ "projr (?init ?W6)"
      "fst (the (migrate_tables ?W6 tables 0 (projr (?init ?W6))))"
      "snd (the (migrate_tables ?W6 tables 0 (projr (?init ?W6))))",
        THEN conjunct2, THEN conjunct2, THEN conjunct2, THEN conjunct2, THEN conjunct1]
      env6 i6 m6 c(4)
    by simp
  have env7: "getattr (getenv ?W7 ''POSTGRES_PASSWORD'') [] \<noteq> [] \<and>
      database_path (Config ?W7) = Some ?p \<and> path_exists ?W7 ?p \<and>
      copy2 ?W7 ?p (?p @ ''.backup'') = Some (Exception ''disk full'')"
    by (simp add: getattr_def test_world_def test_config_def)
  have r7: "map_option fst (main ?W7) = Some (Inl (Exception ''disk full''))"
    using main_exit_status [of ?W7 ?p "Exception ''disk full''",
        THEN conjunct2, THEN conjunct2, THEN conjunct1] env7
    by (rule mp)
  from r1 r2 r3 r4 r5 r7 r6 i3 v4 v5 show ?thesis
    unfolding c by (intro conjI)
qed

section \<open>Theorems: paging of the messages\<close>

lemma convert_messages_append:
  "convert_messages W (xs @ ys) acc =
     (case convert_messages W xs acc of Inl e \<Rightarrow> Inl e | Inr a \<Rightarrow> convert_messages W ys a)"
  by (induction xs arbitrary: acc) (auto split: sum.splits)

lemma convert_messages_map:
  "convert_messages W xs acc = Inr res
     \<Longrightarrow> \<exists>ds. res = acc @ ds \<and> map (convert_message W) xs = map Inr ds"
proof (induction xs arbitrary: acc)
  case Nil
  then show ?case by simp
next
  case (Cons x xs)
  from Cons.prems obtain d where d: "convert_message W x = Inr d"
    and rest: "convert_messages W xs (acc @ [d]) = Inr res"
    by (auto split: sum.splits)
  from Cons.IH [OF rest] obtain ds where "res = (acc @ [d]) @ ds"
    "map (convert_message W) xs = map Inr ds" by blast
  with d show ?case by (intro exI [of _ "d # ds"]) simp
qed

lemma batch_size_pos: "0 < batch_size"
  by (simp add: batch_size_def)

lemma get_messages_while_pages:
  assumes "\<forall>k\<le>K. sqlite_db_get_messages W c batch_size (off + k * batch_size) = Inr (P k)"
    and "\<forall>k<K. batch_size \<le> length (P k)"
    and "length (P K) < batch_size"
    and "convert_messages W (concat (map P [0..<Suc K])) acc = Inr res"
  shows "get_messages_while W c off acc = Some (Inr res)"
  using assms
proof (induction K arbitrary: off acc P)
  case 0
  from "0.prems"(1) have g: "sqlite_db_get_messages W c batch_size off = Inr (P 0)" by simp
  from "0.prems"(4) have cv: "convert_messages W (P 0) acc = Inr res" by simp
  show ?case
  proof (cases "P 0 = []")
    case True
    with g cv show ?thesis by (subst get_messages_while.simps) simp
  next
    case False
    with g cv "0.prems"(3) show ?thesis by (subst get_messages_while.simps) simp
  qed
next
  case (Suc K)
  from Suc.prems(1) have g: "sqlite_db_get_messages W c batch_size off = Inr (P 0)"
    by (metis add.right_neutral le0 mult_zero_left)
  from Suc.prems(2) have full: "batch_size \<le> length (P 0)" by simp
  with batch_size_pos have ne: "P 0 \<noteq> []" by auto
  have split: "concat (map P [0..<Suc (Suc K)]) = P 0 @ concat (map (\<lambda>k. P (Suc k)) [0..<Suc K])"
    by (simp only: upt_conv_Cons [of 0 "Suc (Suc K)"] map_Suc_upt [symmetric]) (simp add: comp_def)
  from Suc.prems(4) obtain acc' where cv: "convert_messages W (P 0) acc = Inr acc'"
    and rest: "convert_messages W (concat (map (\<lambda>k. P (Suc k)) [0..<Suc K])) acc' = Inr res"
    unfolding split convert_messages_append by (auto split: sum.splits)
  have "get_messages_while W c (off + batch_size) acc' = Some (Inr res)"
  proof (rule Suc.IH [of "off + batch_size" "\<lambda>k. P (Suc k)" acc'])
    show "\<forall>k\<le>K. sqlite_db_get_messages W c batch_size (off + batch_size + k * batch_size)
        = Inr (P (Suc k))"
      using Suc.prems(1) by (auto simp: add.assoc dest: spec [of _ "Suc _"])
    show "\<forall>k<K. batch_size \<le> length (P (Suc k))"
      using Suc.prems(2) by auto
    show "length (P (Suc K)) < batch_size"
      using Suc.prems(3) .
    show "convert_messages W (concat (map (\<lambda>k. P (Suc k)) [0..<Suc K])) acc' = Inr res"
      using rest .
  qed
  with g ne cv full show ?case
    by (subst get_messages_while.simps) simp
qed


lemma get_messages_while_contract:
  assumes "\<forall>limit offset. sqlite_db_get_messages W c limit offset
              = Inr (take limit (drop offset msgs))"
  shows "get_messages_while W c off acc = Some (convert_messages W (drop off msgs) acc)"
proof (induction "length msgs - off" arbitrary: off acc rule: less_induct)
  case less
  define page where "page = take batch_size (drop off msgs)"
  define rest where "rest = drop (off + batch_size) msgs"
  have g: "sqlite_db_get_messages W c batch_size off = Inr page"
    using assms by (simp add: page_def)
  have parts: "drop off msgs = page @ rest"
    unfolding page_def rest_def by (metis add.commute append_take_drop_id drop_drop)
  have empty: "drop off msgs = []" if "page = []"
    using that batch_size_pos unfolding page_def by (cases "drop off msgs") auto
  have short: "rest = []" if "length page < batch_size"
    using that unfolding page_def rest_def by auto
  have lt: "length msgs - (off + batch_size) < length msgs - off" if "page \<noteq> []"
  proof -
    from that have "off < length msgs" unfolding page_def by (cases "off < length msgs") auto
    with batch_size_pos show ?thesis by simp
  qed
  show ?case
  proof (cases "page = []")
    case True
    with g empty show ?thesis by (subst get_messages_while.simps) simp
  next
    case False
    show ?thesis
    proof (cases "convert_messages W page acc")
      case (Inl e)
      then have "convert_messages W (drop off msgs) acc = Inl e"
        by (simp add: parts convert_messages_append)
      with g False Inl show ?thesis by (subst get_messages_while.simps) simp
    next
      case (Inr acc')
      then have c: "convert_messages W (drop off msgs) acc = convert_messages W rest acc'"
        by (simp add: parts convert_messages_append)
      show ?thesis
      proof (cases "length page < batch_size")
        case True
        with c short have "convert_messages W (drop off msgs) acc = Inr acc'" by simp
        with g False Inr True show ?thesis by (subst get_messages_while.simps) simp
      next
        case full: False
        from less [OF lt [OF False]]
        have "get_messages_while W c (off + batch_size) acc' = Some (convert_messages W rest acc')"
          unfolding rest_def .
        with c g False Inr full show ?thesis by (subst get_messages_while.simps) simp
      qed
    qed
  qed
qed

lemma get_messages_for_contract:
  assumes "\<forall>c limit offset. sqlite_db_get_messages W c limit offset
              = Inr (take limit (drop offset (msgs c)))"
    and "map (\<lambda>chat. getitem chat ''id'') chats = map Inr ids"
  shows "get_messages_for W chats acc = Some (convert_messages W (concat (map msgs ids)) acc)"
  using assms(2)
proof (induction chats arbitrary: ids acc)
  case Nil
  then show ?case by simp
next
  case (Cons chat chats)
  from Cons.prems obtain i ids' where ids: "ids = i # ids'" and i: "getitem chat ''id'' = Inr i"
    and rest: "map (\<lambda>chat. getitem chat ''id'') chats = map Inr ids'"
    by (cases ids) auto
  have w: "get_messages_while W i 0 acc = Some (convert_messages W (msgs i) acc)"
    using get_messages_while_contract [of W i "msgs i" 0 acc] assms(1) by simp
  show ?case
  proof (cases "convert_messages W (msgs i) acc")
    case (Inl e)
    with w i ids show ?thesis by (simp add: convert_messages_append)
  next
    case (Inr acc')
    with w i ids Cons.IH [OF rest, of acc'] show ?thesis
      by (simp add: convert_messages_append)
  qed
qed

text \<open>
  Claim C7: the batch size is 1000. For one chat, if the pages at the offsets 0, 1000,
  2000, ... up to page \<open>K\<close> are \<open>P 0\<close>, ..., \<open>P K\<close>, the pages before \<open>P K\<close> are
  not shorter than the batch size and \<open>P K\<close> is shorter (or empty), then the loop returns
  with the converted rows of exactly these pages: it goes on after every full page and
  stops at the first short or empty one, whatever the store would return at any other
  offset. And if the legacy store serves limit and offset from a list of messages per
  chat, \<open>_get_messages\<close> returns, with every message of every chat of the listing,
  converted, once and in order (or with the exception of the first message whose date
  does not parse).
\<close>

theorem get_messages_pages:
  "batch_size = 1000 \<and>
   ((\<forall>k\<le>K. sqlite_db_get_messages W c batch_size (k * batch_size) = Inr (P k)) \<and>
    (\<forall>k<K. batch_size \<le> length (P k)) \<and> length (P K) < batch_size \<and>
    convert_messages W (concat (map P [0..<Suc K])) acc = Inr res \<longrightarrow>
      get_messages_while W c 0 acc = Some (Inr res)) \<and>
   (sqlite_db_get_all_chats W None = Inr chats \<and>
    map (\<lambda>chat. getitem chat ''id'') chats = map Inr ids \<and>
    (\<forall>c limit offset. sqlite_db_get_messages W c limit offset
        = Inr (take limit (drop offset (msgs c)))) \<longrightarrow>
      DataMigrator_get_messages W = Some (convert_messages W (concat (map msgs ids)) []) \<and>
      (\<forall>all. convert_messages W (concat (map msgs ids)) [] = Inr all \<longrightarrow>
         map (convert_message W) (concat (map msgs ids)) = map Inr all))"
proof (intro conjI impI allI)
  show "batch_size = 1000" by (simp add: batch_size_def)
next
  assume a: "(\<forall>k\<le>K. sqlite_db_get_messages W c batch_size (k * batch_size) = Inr (P k)) \<and>
    (\<forall>k<K. batch_size \<le> length (P k)) \<and> length (P K) < batch_size \<and>
    convert_messages W (concat (map P [0..<Suc K])) acc = Inr res"
  show "get_messages_while W c 0 acc = Some (Inr res)"
    by (rule get_messages_while_pages [of K W c 0 P acc res]) (use a in simp_all)
next
  assume a: "sqlite_db_get_all_chats W None = Inr chats \<and>
    map (\<lambda>chat. getitem chat ''id'') chats = map Inr ids \<and>
    (\<forall>c limit offset. sqlite_db_get_messages W c limit offset
        = Inr (take limit (drop offset (msgs c))))"
  with get_messages_for_contract [of W msgs chats ids "[]"]
  show "DataMigrator_get_messages W = Some (convert_messages W (concat (map msgs ids)) [])"
    by (simp add: DataMigrator_get_messages_def)
next
  fix all
  assume "convert_messages W (concat (map msgs ids)) [] = Inr all"
  from convert_messages_map [OF this]
  show "map (convert_message W) (concat (map msgs ids)) = map Inr all" by simp
qed


lemma convert_messages_replicate:
  "convert_message W m = Inr d \<Longrightarrow> convert_messages W (replicate n m) acc = Inr (acc @ replicate n d)"
proof (induction n arbitrary: acc)
  case 0
  then show ?case by simp
next
  case (Suc n)
  then show ?case by (simp add: replicate_app_Cons_same)
qed

text \<open>
  Claim C7 on a chat of 1500 messages: the page at offset 0 has 1000 rows, the page at
  offset 1000 has 500, and all 1500 messages are collected.
\<close>

theorem get_messages_pages_witness:
  "batch_size = 1000 \<and>
   sqlite_db_get_messages
      (test_world\<lparr>sqlite_db_get_messages :=
         \<lambda>c limit offset. Inr (take limit (drop offset (replicate 1500 test_message)))\<rparr>)
      (PInt 123) batch_size 0 = Inr (replicate 1000 test_message) \<and>
   sqlite_db_get_messages
      (test_world\<lparr>sqlite_db_get_messages :=
         \<lambda>c limit offset. Inr (take limit (drop offset (replicate 1500 test_message)))\<rparr>)
      (PInt 123) batch_size 1000 = Inr (replicate 500 test_message) \<and>
   get_messages_while
      (test_world\<lparr>sqlite_db_get_messages :=
         \<lambda>c limit offset. Inr (take limit (drop offset (replicate 1500 test_message)))\<rparr>)
      (PInt 123) 0 []
     = Some (Inr (replicate 1500
         (AList.update ''date'' (PDateTime ''2024-01-01 00:00:00'') test_message))) \<and>
   DataMigrator_get_messages
      (test_world\<lparr>sqlite_db_get_messages :=
         \<lambda>c limit offset. Inr (take limit (drop offset (replicate 1500 test_message)))\<rparr>)
     = Some (Inr (replicate 1500
         (AList.update ''date'' (PDateTime ''2024-01-01 00:00:00'') test_message)))"
proof -
  let ?W = "test_world\<lparr>sqlite_db_get_messages :=
         \<lambda>c limit offset. Inr (take limit (drop offset (replicate 1500 test_message)))\<rparr>"
  let ?d = "AList.update ''date'' (PDateTime ''2024-01-01 00:00:00'') test_message"
  let ?P = "\<lambda>k. take 1000 (drop (k * 1000) (replicate 1500 test_message))"
  have b: "batch_size = 1000" by (simp add: batch_size_def)
  have g: "sqlite_db_get_messages ?W c limit offset
      = Inr (take limit (drop offset (replicate 1500 test_message)))" for c limit offset
    by simp
  have cm: "convert_message ?W test_message = Inr ?d"
    by (simp add: convert_message_def convert_dict_def parse_date_def test_message_def
        test_world_def)
  have cv: "convert_messages ?W (replicate n test_message) [] = Inr (replicate n ?d)" for n
    using convert_messages_replicate [OF cm, of n "[]"] by simp
  have p0: "?P 0 = replicate 1000 test_message" by simp
  have p1: "?P (Suc 0) = replicate 500 test_message" by simp
  have pages: "concat (map ?P [0..<Suc (Suc 0)]) = replicate 1500 test_message"
    by (simp add: p0 p1 replicate_add [symmetric])
  have h1: "\<forall>k\<le>Suc 0. sqlite_db_get_messages ?W (PInt 123) batch_size (k * batch_size) = Inr (?P k)"
    by (simp add: b)
  have h2: "\<forall>k<Suc 0. batch_size \<le> length (?P k)"
    by (simp add: b)
  have h3: "length (?P (Suc 0)) < batch_size"
    by (simp add: b)
  have h4: "convert_messages ?W (concat (map ?P [0..<Suc (Suc 0)])) []
      = Inr (replicate 1500 ?d)"
    unfolding pages by (rule cv)
  have chats: "sqlite_db_get_all_chats ?W None = Inr [test_chat]"
    by (simp add: test_world_def)
  have ids: "map (\<lambda>chat. getitem chat ''id'') [test_chat] = map Inr [PInt 123]"
    by (simp add: getitem_def test_chat_def)
  have contract: "\<forall>c limit offset. sqlite_db_get_messages ?W c limit offset
        = Inr (take limit (drop offset ((\<lambda>c. replicate 1500 test_message) c)))"
    by simp
  note t = get_messages_pages [of "Suc 0" ?W "PInt 123" ?P "[]" "replicate 1500 ?d"
      "[test_chat]" "[PInt 123]" "\<lambda>c. replicate 1500 test_message"]
  from t h1 h2 h3 h4
  have r1: "get_messages_while ?W (PInt 123) 0 [] = Some (Inr (replicate 1500 ?d))"
    by blast
  from t chats ids contract
  have "DataMigrator_get_messages ?W
      = Some (convert_messages ?W (concat (map (\<lambda>c. replicate 1500 test_message) [PInt 123])) [])"
    by blast
  moreover have "concat (map (\<lambda>c. replicate 1500 test_message) [PInt 123])
      = replicate 1500 test_message"
    by simp
  ultimately have r2: "DataMigrator_get_messages ?W = Some (Inr (replicate 1500 ?d))"
    by (simp only: cv)
  have g0: "sqlite_db_get_messages ?W (PInt 123) batch_size 0 = Inr (replicate 1000 test_message)"
    by (simp add: b)
  have g1: "sqlite_db_get_messages ?W (PInt 123) batch_size 1000 = Inr (replicate 500 test_message)"
    by (simp add: b)
  from b g0 g1 r1 r2 show ?thesis by (intro conjI)
qed

end
